theory Spec2Isabelle
  imports Complex_Main "HOL-Library.AList"
begin

section \<open>Data model\<close>

text \<open>
  The module \<^verbatim>\<open>src/experiment/utils.py\<close> loads per-fold forecast artifacts, computes
  their RMSE and converts log-return forecasts back to prices.  Floating-point numbers are
  idealised as \<^typ>\<open>real\<close>; timestamps are integers (a position on the time axis).
  Every exception of the Python code is a value of \<open>error\<close>.
\<close>

text \<open>
  \<open>ExternalError\<close> stands for any other exception that a library function raises.
\<close>

datatype error =
    TypeError | KeyError | IndexError | ValueError | FileNotFoundError | UnboundLocalError
  | AttributeError | ExternalError

text \<open>A darts \<^verbatim>\<open>TimeSeries\<close> with one component: its rows (timestamp, value) in index order.\<close>

type_synonym timeseries = "(int \<times> real) list"

text \<open>
  A stored artifact (a CSV file as \<^verbatim>\<open>pd.read_csv\<close> returns it): the name of its time column,
  the name of its single value column, and its rows.
\<close>

record table =
  time_col :: string
  value_col :: string
  rows :: "(int \<times> real) list"

text \<open>The historical price table: a named time index and the \<^verbatim>\<open>close\<close> column.\<close>

record price_frame =
  index_name :: string
  price_rows :: "(int \<times> real) list"

text \<open>
  The module \<^verbatim>\<open>config\<close> is imported, not part of the source file: its constants are the
  fields of a parameter.
\<close>

record config =
  model_output_dir :: string
  log_returns_model :: string
  raw_model :: string
  extended_model :: string
  scaled_model :: string
  log_to_raw_model :: string
  scaled_to_raw_model :: string
  extended_to_raw_model :: string
  scaled_to_log_model :: string
  raw_to_log_model :: string
  all_models :: "string list"
  ml_models :: "string list"
  all_coins :: "string list"
  timeframes :: "string list"

text \<open>
  The functions the module calls in other packages are parameters as well:
  \<^verbatim>\<open>TimeSeries.from_dataframe\<close> and \<^verbatim>\<open>darts.metrics.rmse\<close> (both may raise), the frequency
  attribute of a series that \<^verbatim>\<open>darts.concatenate\<close> consults, and \<^verbatim>\<open>data.csv_data.read_csv\<close>,
  the reader of the price history.
\<close>

record externals =
  from_dataframe :: "table \<Rightarrow> string \<Rightarrow> string list \<Rightarrow> error + timeseries"
  rmse :: "timeseries \<Rightarrow> timeseries \<Rightarrow> error + real"
  freq :: "timeseries \<Rightarrow> int"
  read_csv :: "string \<Rightarrow> string \<Rightarrow> string list \<Rightarrow> error + price_frame"

text \<open>
  The state the code acts on: the forecast store as a flat map from a path to the artifact
  there (directories are implicit in the paths, so \<^verbatim>\<open>os.makedirs\<close> changes nothing), and
  the lines printed so far.
\<close>

record world =
  files :: "string \<rightharpoonup> table"
  stdout :: "string list"

definition print :: "world \<Rightarrow> string \<Rightarrow> world" where
  "print w line = w\<lparr>stdout := stdout w @ [line]\<rparr>"

definition path_exists :: "world \<Rightarrow> string \<Rightarrow> bool" where
  "path_exists w path = (files w path \<noteq> None)"

definition to_csv :: "world \<Rightarrow> string \<Rightarrow> table \<Rightarrow> world" where
  "to_csv w path t = w\<lparr>files := (files w)(path \<mapsto> t)\<rparr>"

text \<open>What \<^verbatim>\<open>get_predictions\<close> returns in one position of its tuple: one series or a list.\<close>

datatype series_out = Single timeseries | Many "timeseries list"

text \<open>
  The triple \<^verbatim>\<open>(preds, tests, rmses)\<close>; the sentinel \<^verbatim>\<open>(None, None, None)\<close> is \<open>None\<close>.
\<close>

type_synonym loaded = "series_out \<times> series_out \<times> real list"

section \<open>Python and library operations\<close>

text \<open>\<^verbatim>\<open>str(n)\<close> of a natural number, as an f-string formats a fold index.\<close>

definition digit_char :: "nat \<Rightarrow> char" where
  "digit_char d = ''0123456789'' ! d"

fun str_nat :: "nat \<Rightarrow> string" where
  "str_nat n = (if n < 10 then [digit_char n] else str_nat (n div 10) @ [digit_char (n mod 10)])"

declare str_nat.simps [simp del]

text \<open>
  Binding of a call made with keyword arguments only: a keyword that is no parameter of the
  callee, or a parameter without default that no keyword supplies, raises \<^verbatim>\<open>TypeError\<close>
  before the body runs.
\<close>

datatype pyval = PStr string | PBool bool

definition bind_keywords ::
  "string list \<Rightarrow> (string \<times> pyval) list \<Rightarrow> (string \<times> pyval) list
    \<Rightarrow> error + (string \<rightharpoonup> pyval)" where
  "bind_keywords params defaults kwargs =
     (if list_ex (\<lambda>k. k \<notin> set params) (map fst kwargs) then Inl TypeError
      else if list_ex (\<lambda>p. p \<notin> set (map fst kwargs) \<and> p \<notin> set (map fst defaults)) params
        then Inl TypeError
      else Inr (map_of (kwargs @ defaults)))"

text \<open>\<^verbatim>\<open>start_time()\<close> and \<^verbatim>\<open>end_time()\<close>: the first and last entry of the time index.\<close>

definition start_time :: "timeseries \<Rightarrow> error + int" where
  "start_time ts = (case ts of [] \<Rightarrow> Inl IndexError | r # _ \<Rightarrow> Inr (fst r))"

definition end_time :: "timeseries \<Rightarrow> error + int" where
  "end_time ts = (case rev ts of [] \<Rightarrow> Inl IndexError | r # _ \<Rightarrow> Inr (fst r))"

text \<open>
  \<^verbatim>\<open>darts.concatenate(series, axis=0)\<close>: each series must start one frequency step (of the
  first series) after the end of the one before it, otherwise \<^verbatim>\<open>ValueError\<close>.  The result
  holds the values of all series in list order, on a time index that starts at the start
  of the first series and advances by the frequency of the first series.
\<close>

fun consecutive_time_axes :: "int \<Rightarrow> timeseries list \<Rightarrow> error + bool" where
  "consecutive_time_axes f [] = Inr True"
| "consecutive_time_axes f [s] = Inr True"
| "consecutive_time_axes f (a # b # rest) =
     (case end_time a of Inl e \<Rightarrow> Inl e
      | Inr ea \<Rightarrow>
          (case start_time b of Inl e \<Rightarrow> Inl e
           | Inr sb \<Rightarrow>
               if ea + f \<noteq> sb then Inr False else consecutive_time_axes f (b # rest)))"

definition concatenate :: "externals \<Rightarrow> timeseries list \<Rightarrow> error + timeseries" where
  "concatenate ext series =
     (case series of [] \<Rightarrow> Inl ValueError
      | s0 # _ \<Rightarrow>
          (case consecutive_time_axes (freq ext s0) series of Inl e \<Rightarrow> Inl e
           | Inr ok \<Rightarrow>
               if \<not> ok then Inl ValueError
               else (case start_time s0 of Inl e \<Rightarrow> Inl e
                     | Inr st \<Rightarrow>
                         (let vals = concat (map (map snd) series)
                          in Inr (zip (map (\<lambda>i. st + int i * freq ext s0) [0..<length vals])
                                   vals)))))"

text \<open>
  \<^verbatim>\<open>Index.get_loc(t)\<close>: the integer position of a label that occurs once, \<^verbatim>\<open>KeyError\<close> when
  it does not occur.  For a label that occurs several times pandas returns a slice or a
  mask, which the integer arithmetic and slicing of the caller reject.
\<close>

definition get_loc :: "(int \<times> real) list \<Rightarrow> int \<Rightarrow> error + nat" where
  "get_loc df t =
     (case filter (\<lambda>i. fst (df ! i) = t) [0..<length df] of
        [] \<Rightarrow> Inl KeyError
      | [i] \<Rightarrow> Inr i
      | _ \<Rightarrow> Inl TypeError)"

text \<open>
  \<^verbatim>\<open>df.iloc[a:b]\<close>: a negative bound counts from the end, both bounds are clipped to the
  length, and the upper bound is exclusive.
\<close>

definition norm_idx :: "nat \<Rightarrow> int \<Rightarrow> nat" where
  "norm_idx n i = (if i < 0 then nat (max 0 (int n + i)) else min n (nat i))"

definition iloc_slice :: "'a list \<Rightarrow> int \<Rightarrow> int \<Rightarrow> 'a list" where
  "iloc_slice xs a b =
     (let n = length xs; lo = norm_idx n a; hi = norm_idx n b
      in take (hi - lo) (drop lo xs))"

text \<open>
  \<^verbatim>\<open>pd.DataFrame({"close": values}, index=[index])\<close>: \<^verbatim>\<open>ValueError\<close> when the column and the
  index differ in length.
\<close>

definition data_frame :: "int list \<Rightarrow> real list \<Rightarrow> error + (int \<times> real) list" where
  "data_frame idx vals = (if length vals \<noteq> length idx then Inl ValueError else Inr (zip idx vals))"

text \<open>
  \<^verbatim>\<open>pd.DataFrame(rmses)\<close> of a dict of lists: one column per key, \<^verbatim>\<open>ValueError\<close> when the
  lists differ in length.
\<close>

definition frame_of_dict :: "(string \<times> real list) list \<Rightarrow> error + (string \<times> real list) list" where
  "frame_of_dict d =
     (if list_all (\<lambda>c. length (snd c) = length (snd (hd d))) d then Inr d else Inl ValueError)"

section \<open>get_predictions\<close>

definition select_value_cols :: "config \<Rightarrow> string \<Rightarrow> string list option" where
  \<comment> \<open>lines 88-97; \<open>None\<close>: the variable \<^verbatim>\<open>value_cols\<close> stays unbound\<close>
  "select_value_cols cfg model =
     (if model \<in> set [log_returns_model cfg, extended_model cfg, scaled_model cfg,
                      scaled_to_log_model cfg, raw_to_log_model cfg]
      then Some [''log returns'']
      else if model \<in> set [raw_model cfg, extended_to_raw_model cfg, scaled_to_raw_model cfg]
      then Some [''close'']
      else None)"

definition file_loc :: "config \<Rightarrow> string \<Rightarrow> string \<Rightarrow> string \<Rightarrow> string \<Rightarrow> string" where
  "file_loc cfg model model_name coin time_frame =
     model_output_dir cfg @ ''/'' @ model @ ''/'' @ model_name @ ''/'' @ coin @ ''/'' @ time_frame"

definition pred_path :: "string \<Rightarrow> nat \<Rightarrow> string" where
  "pred_path loc period = loc @ ''/pred_'' @ str_nat period @ ''.csv''"

definition test_path :: "string \<Rightarrow> nat \<Rightarrow> string" where
  "test_path loc period = loc @ ''/test_'' @ str_nat period @ ''.csv''"

text \<open>
  Lines 107-115 of the loop body, run once the prediction file is known to exist: read and
  parse the prediction, read and parse the test, compute the RMSE.
\<close>

definition read_fold ::
  "externals \<Rightarrow> world \<Rightarrow> string list option \<Rightarrow> string \<Rightarrow> string
    \<Rightarrow> error + (timeseries \<times> timeseries \<times> real)" where
  "read_fold ext w value_cols ppath tpath =
     (case files w ppath of None \<Rightarrow> Inl FileNotFoundError
      | Some pred_csv \<Rightarrow>
     (case value_cols of None \<Rightarrow> Inl UnboundLocalError
      | Some vc \<Rightarrow>
     (case from_dataframe ext pred_csv ''time'' vc of Inl e \<Rightarrow> Inl e
      | Inr pred \<Rightarrow>
     (case files w tpath of None \<Rightarrow> Inl FileNotFoundError
      | Some test_csv \<Rightarrow>
     (case from_dataframe ext test_csv ''date'' vc of Inl e \<Rightarrow> Inl e
      | Inr test \<Rightarrow>
     (case rmse ext test pred of Inl e \<Rightarrow> Inl e
      | Inr r \<Rightarrow> Inr (pred, test, r)))))))"

text \<open>The loop \<^verbatim>\<open>for period in range(5)\<close> over the periods still to visit.\<close>

fun periods_loop ::
  "externals \<Rightarrow> config \<Rightarrow> world \<Rightarrow> string \<Rightarrow> string \<Rightarrow> string \<Rightarrow> string \<Rightarrow> string list option
    \<Rightarrow> nat list \<Rightarrow> timeseries list \<Rightarrow> timeseries list \<Rightarrow> real list
    \<Rightarrow> world \<times> (error + (timeseries list \<times> timeseries list \<times> real list) option)" where
  "periods_loop ext cfg w model model_name coin time_frame value_cols [] preds tests rmses =
     (w, Inr (Some (preds, tests, rmses)))"
| "periods_loop ext cfg w model model_name coin time_frame value_cols (period # rest)
       preds tests rmses =
     (let loc = file_loc cfg model model_name coin time_frame;
          ppath = pred_path loc period;
          tpath = test_path loc period
      in if \<not> path_exists w ppath
         then (print w (''Warning the following file does not exist: '' @ ppath), Inr None)
         else (case read_fold ext w value_cols ppath tpath of
                 Inl e \<Rightarrow> (w, Inl e)
               | Inr (pred, test, r) \<Rightarrow>
                   periods_loop ext cfg w model model_name coin time_frame value_cols rest
                     (preds @ [pred]) (tests @ [test]) (rmses @ [r])))"

definition get_predictions ::
  "externals \<Rightarrow> config \<Rightarrow> world \<Rightarrow> string \<Rightarrow> string \<Rightarrow> string \<Rightarrow> string \<Rightarrow> bool
    \<Rightarrow> world \<times> (error + loaded option)" where
  "get_predictions ext cfg w model model_name coin time_frame concatenated =
     (case periods_loop ext cfg w model model_name coin time_frame
             (select_value_cols cfg model) [0, 1, 2, 3, 4] [] [] [] of
        (w1, Inl e) \<Rightarrow> (w1, Inl e)
      | (w1, Inr None) \<Rightarrow> (w1, Inr None)
      | (w1, Inr (Some (preds, tests, rmses))) \<Rightarrow>
          if model \<noteq> extended_model cfg \<and> concatenated
          then (case concatenate ext preds of Inl e \<Rightarrow> (w1, Inl e)
                | Inr p \<Rightarrow>
                    (case concatenate ext tests of Inl e \<Rightarrow> (w1, Inl e)
                     | Inr t \<Rightarrow> (w1, Inr (Some (Single p, Single t, rmses)))))
          else (case tests of [] \<Rightarrow> (w1, Inl IndexError)
                | t # _ \<Rightarrow> (w1, Inr (Some (Many preds, Single t, rmses)))))"

text \<open>
  Folds in chronological order, fold 0 first: every series has strictly increasing
  timestamps, none is empty before or after a boundary, and each series ends before the
  next one starts.
\<close>

definition strictly_increasing :: "timeseries \<Rightarrow> bool" where
  "strictly_increasing ts = sorted_wrt (<) (map fst ts)"

fun chronological :: "timeseries list \<Rightarrow> bool" where
  "chronological [] = True"
| "chronological [s] = strictly_increasing s"
| "chronological (a # b # rest) =
     (strictly_increasing a \<and> a \<noteq> [] \<and> b \<noteq> [] \<and> fst (last a) < fst (hd b) \<and>
      chronological (b # rest))"

text \<open>
  A call of \<^verbatim>\<open>get_predictions\<close> by keywords.  Its parameters are \<^verbatim>\<open>model\<close>, \<^verbatim>\<open>model_name\<close>,
  \<^verbatim>\<open>coin\<close>, \<^verbatim>\<open>time_frame\<close> and \<^verbatim>\<open>concatenated\<close> (default \<^verbatim>\<open>True\<close>).  Both callers pass
  strings and a boolean; the last case is there for totality only.
\<close>

definition get_predictions_params :: "string list" where
  "get_predictions_params = [''model'', ''model_name'', ''coin'', ''time_frame'', ''concatenated'']"

definition get_predictions_defaults :: "(string \<times> pyval) list" where
  "get_predictions_defaults = [(''concatenated'', PBool True)]"

definition call_get_predictions ::
  "externals \<Rightarrow> config \<Rightarrow> world \<Rightarrow> (string \<times> pyval) list \<Rightarrow> world \<times> (error + loaded option)" where
  "call_get_predictions ext cfg w kwargs =
     (case bind_keywords get_predictions_params get_predictions_defaults kwargs of
        Inl e \<Rightarrow> (w, Inl e)
      | Inr args \<Rightarrow>
          (case (args ''model'', args ''model_name'', args ''coin'', args ''time_frame'',
                 args ''concatenated'') of
             (Some (PStr model), Some (PStr model_name), Some (PStr coin),
              Some (PStr time_frame), Some (PBool concatenated)) \<Rightarrow>
               get_predictions ext cfg w model model_name coin time_frame concatenated
           | _ \<Rightarrow> (w, Inl TypeError)))"

section \<open>all_model_predictions\<close>

text \<open>
  The loop over the catalog.  \<^verbatim>\<open>model_predictions\<close> is a Python dict: an insertion-ordered
  association list in which a key that is already present keeps its place.
\<close>

fun models_loop ::
  "externals \<Rightarrow> config \<Rightarrow> world \<Rightarrow> string \<Rightarrow> string \<Rightarrow> string \<Rightarrow> string list
    \<Rightarrow> (string \<times> loaded) list \<Rightarrow> world \<times> (error + (string \<times> loaded) list)" where
  "models_loop ext cfg w model coin time_frame [] model_predictions =
     (w, Inr model_predictions)"
| "models_loop ext cfg w model coin time_frame (model_name # rest) model_predictions =
     (case call_get_predictions ext cfg w
             [(''model'', PStr model), (''model_name'', PStr model_name),
              (''coin'', PStr coin), (''time_frame'', PStr time_frame)] of
        (w1, Inl e) \<Rightarrow> (w1, Inl e)
      | (w1, Inr None) \<Rightarrow> models_loop ext cfg w1 model coin time_frame rest model_predictions
      | (w1, Inr (Some b)) \<Rightarrow>
          models_loop ext cfg w1 model coin time_frame rest
            (AList.update model_name b model_predictions))"

definition all_model_predictions ::
  "externals \<Rightarrow> config \<Rightarrow> world \<Rightarrow> string \<Rightarrow> string \<Rightarrow> string
    \<Rightarrow> world \<times> (error + (string \<times> loaded) list \<times> (string \<times> real list) list)" where
  "all_model_predictions ext cfg w model coin time_frame =
     (let models = (if model = extended_model cfg then ml_models cfg else all_models cfg)
      in case models_loop ext cfg w model coin time_frame models [] of
           (w1, Inl e) \<Rightarrow> (w1, Inl e)
         | (w1, Inr model_predictions) \<Rightarrow>
             (case frame_of_dict (map (\<lambda>(m, (_, _, r)). (m, r)) model_predictions) of
                Inl e \<Rightarrow> (w1, Inl e)
              | Inr rmse_df \<Rightarrow> (w1, Inr (model_predictions, rmse_df))))"

text \<open>
  Two notions to state what the loop collects: a result that is a load, and the step that
  enters a model's load into the dictionary.
\<close>

definition is_loaded :: "error + loaded option \<Rightarrow> bool" where
  "is_loaded r = (case r of Inr (Some _) \<Rightarrow> True | _ \<Rightarrow> False)"

definition keep_loaded ::
  "(string \<Rightarrow> error + loaded option) \<Rightarrow> (string \<times> loaded) list \<Rightarrow> string
    \<Rightarrow> (string \<times> loaded) list" where
  "keep_loaded G d m = (case G m of Inr (Some b) \<Rightarrow> AList.update m b d | _ \<Rightarrow> d)"

section \<open>log_returns_to_price\<close>

text \<open>
  Lines 201-205: the list \<^verbatim>\<open>close\<close> starts with the anchor and gains one price per forecast
  value, the last price times the exponential of the value.  The list is never empty
  there, so \<^verbatim>\<open>close[-1]\<close> is its last element.
\<close>

fun compound :: "real list \<Rightarrow> real list \<Rightarrow> real list" where
  "compound close [] = close"
| "compound close (v # vs) = compound (close @ [last close * exp v]) vs"

text \<open>
  The log returns of a price series after the price \<open>p0\<close>, as the specification words them:
  each is the logarithm of a price over the price before it.
\<close>

fun log_returns_of :: "real \<Rightarrow> real list \<Rightarrow> real list" where
  "log_returns_of p0 [] = []"
| "log_returns_of p0 (p # ps) = ln (p / p0) # log_returns_of p ps"

text \<open>
  Lines 196-198: the positions of the forecast's start and end time in the price index, and
  the slice \<^verbatim>\<open>price_df.iloc[start_pos:end_pos]\<close>.
\<close>

definition slice_prices :: "price_frame \<Rightarrow> timeseries \<Rightarrow> error + (int \<times> real) list" where
  "slice_prices price_df prediction =
     (case start_time prediction of Inl e \<Rightarrow> Inl e
      | Inr st \<Rightarrow>
     (case get_loc (price_rows price_df) st of Inl e \<Rightarrow> Inl e
      | Inr ls \<Rightarrow>
     (case end_time prediction of Inl e \<Rightarrow> Inl e
      | Inr et \<Rightarrow>
     (case get_loc (price_rows price_df) et of Inl e \<Rightarrow> Inl e
      | Inr le \<Rightarrow>
     (let start_pos = int ls - 1;
          end_pos = int le + 1
      in Inr (iloc_slice (price_rows price_df) start_pos end_pos))))))"

text \<open>
  The body of the loop over the folds, up to the two frames handed to \<^verbatim>\<open>to_csv\<close>
  (lines 195-221): the reconstructed prices and the ground truth, both on the index of the
  slice and both without their first row.
\<close>

definition convert_fold :: "price_frame \<Rightarrow> timeseries \<Rightarrow> error + (table \<times> table)" where
  "convert_fold price_df prediction =
     (case slice_prices price_df prediction of Inl e \<Rightarrow> Inl e
      | Inr sliced_price_df \<Rightarrow>
     (case map snd sliced_price_df of [] \<Rightarrow> Inl IndexError
      | c0 # _ \<Rightarrow>
     (case data_frame (map fst sliced_price_df) (compound [c0] (map snd prediction)) of
        Inl e \<Rightarrow> Inl e
      | Inr close \<Rightarrow>
     (case data_frame (map fst sliced_price_df) (map snd sliced_price_df) of
        Inl e \<Rightarrow> Inl e
      | Inr test \<Rightarrow>
          Inr (\<lparr>time_col = ''time'', value_col = ''close'', rows = drop 1 close\<rparr>,
               \<lparr>time_col = index_name price_df, value_col = ''close'',
                 rows = drop 1 test\<rparr>)))))"

text \<open>The loop \<^verbatim>\<open>for i, prediction in enumerate(preds)\<close>, from index \<open>i\<close> on.\<close>

fun folds_loop ::
  "world \<Rightarrow> price_frame \<Rightarrow> string \<Rightarrow> nat \<Rightarrow> timeseries list \<Rightarrow> world \<times> (error + unit)" where
  "folds_loop w price_df save_loc i [] = (w, Inr ())"
| "folds_loop w price_df save_loc i (prediction # rest) =
     (case convert_fold price_df prediction of
        Inl e \<Rightarrow> (w, Inl e)
      | Inr (close, test) \<Rightarrow>
          folds_loop (to_csv (to_csv w (pred_path save_loc i) close) (test_path save_loc i) test)
            price_df save_loc (Suc i) rest)"

definition transformed_model :: "config \<Rightarrow> string \<Rightarrow> string option" where
  \<comment> \<open>lines 177-185; \<open>None\<close>: the branch that prints and returns\<close>
  "transformed_model cfg model =
     (if model = log_returns_model cfg then Some (log_to_raw_model cfg)
      else if model = extended_model cfg then Some (extended_to_raw_model cfg)
      else if model = scaled_to_log_model cfg then Some (scaled_to_raw_model cfg)
      else None)"

text \<open>
  What \<^verbatim>\<open>enumerate(preds)\<close> iterates over: \<^verbatim>\<open>None\<close> is not iterable, a list yields its
  elements, a single series yields its one-step series.
\<close>

definition iter_preds :: "series_out option \<Rightarrow> error + timeseries list" where
  "iter_preds preds =
     (case preds of None \<Rightarrow> Inl TypeError
      | Some (Many ps) \<Rightarrow> Inr ps
      | Some (Single ts) \<Rightarrow> Inr (map (\<lambda>r. [r]) ts))"

definition preds_of :: "loaded option \<Rightarrow> series_out option" where
  \<comment> \<open>the unpacking \<^verbatim>\<open>preds, _, _ = ...\<close>\<close>
  "preds_of res = (case res of None \<Rightarrow> None | Some (preds, _, _) \<Rightarrow> Some preds)"

text \<open>Lines 177-228: what \<^verbatim>\<open>log_returns_to_price\<close> does once \<^verbatim>\<open>preds\<close> is bound.\<close>

definition convert_loaded ::
  "externals \<Rightarrow> config \<Rightarrow> world \<Rightarrow> series_out option \<Rightarrow> string \<Rightarrow> string \<Rightarrow> string \<Rightarrow> string
    \<Rightarrow> world \<times> (error + unit)" where
  "convert_loaded ext cfg w preds model forecasting_model coin time_frame =
     (case transformed_model cfg model of
        None \<Rightarrow> (print w ''This model cannot be converted to price.'', Inr ())
      | Some tm \<Rightarrow>
          (case read_csv ext coin time_frame [''close''] of
             Inl e \<Rightarrow> (w, Inl e)
           | Inr price_df \<Rightarrow>
               (let save_loc = file_loc cfg tm forecasting_model coin time_frame
                in case iter_preds preds of
                     Inl e \<Rightarrow> (w, Inl e)
                   | Inr ps \<Rightarrow> folds_loop w price_df save_loc 0 ps)))"

definition log_returns_to_price ::
  "externals \<Rightarrow> config \<Rightarrow> world \<Rightarrow> string \<Rightarrow> string \<Rightarrow> string \<Rightarrow> string
    \<Rightarrow> world \<times> (error + unit)" where
  "log_returns_to_price ext cfg w model forecasting_model coin time_frame =
     (case call_get_predictions ext cfg w
             [(''model'', PStr model), (''forecasting_model'', PStr forecasting_model),
              (''coin'', PStr coin), (''time_frame'', PStr time_frame),
              (''concatenated'', PBool False)] of
        (w1, Inl e) \<Rightarrow> (w1, Inl e)
      | (w1, Inr res) \<Rightarrow>
          convert_loaded ext cfg w1 (preds_of res) model forecasting_model coin time_frame)"

section \<open>Example inputs\<close>

text \<open>
  A configuration with pairwise different family names, instances of the library functions,
  and small stores; the concrete evaluations below run on them.
\<close>

definition demo_cfg :: config where
  "demo_cfg =
     \<lparr>model_output_dir = ''out'', log_returns_model = ''log_returns'', raw_model = ''raw'',
      extended_model = ''extended'', scaled_model = ''scaled'',
      log_to_raw_model = ''log_to_raw'', scaled_to_raw_model = ''scaled_to_raw'',
      extended_to_raw_model = ''extended_to_raw'', scaled_to_log_model = ''scaled_to_log'',
      raw_to_log_model = ''raw_to_log'',
      all_models = [''ARIMA'', ''RNN'', ''XGB''], ml_models = [''XGB''],
      all_coins = [''BTC''], timeframes = [''1d'']\<rparr>"

text \<open>
  The parser of a table: the time column and the value column must be there, the rows are
  sorted by time, and the series needs a frequency, so at least two timestamps with one and
  the same positive step between neighbours; otherwise \<^verbatim>\<open>ValueError\<close>.
\<close>

definition regular_index :: "int list \<Rightarrow> bool" where
  "regular_index ts =
     (case ts of
        a # b # _ \<Rightarrow> a < b \<and> list_all (\<lambda>(x, y). y - x = b - a) (zip ts (tl ts))
      | _ \<Rightarrow> False)"

definition demo_from_dataframe :: "table \<Rightarrow> string \<Rightarrow> string list \<Rightarrow> error + timeseries" where
  "demo_from_dataframe t tc vcs =
     (if tc \<noteq> time_col t then Inl AttributeError
      else if vcs \<noteq> [value_col t] then Inl KeyError
      else (let rs = sort_key fst (rows t)
            in if regular_index (map fst rs) then Inr rs else Inl ValueError))"

text \<open>The frequency of a parsed series: the step between its first two timestamps.\<close>

definition demo_freq :: "timeseries \<Rightarrow> int" where
  "demo_freq ts = (case ts of a # b # _ \<Rightarrow> fst b - fst a | _ \<Rightarrow> 1)"

definition demo_rmse :: "timeseries \<Rightarrow> timeseries \<Rightarrow> error + real" where
  "demo_rmse test pred =
     (if length test = length pred \<and> test \<noteq> []
      then Inr (sqrt (sum_list (map2 (\<lambda>a b. (snd a - snd b)\<^sup>2) test pred) / real (length test)))
      else Inl ValueError)"

definition demo_prices :: price_frame where
  "demo_prices = \<lparr>index_name = ''date'',
                   price_rows = [(0, 100), (1, 102), (2, 101), (3, 105)]\<rparr>"

text \<open>
  A forecast of the log returns at the timestamps 1 and 2 of the example prices: the
  returns of the true prices 102 and 101 after the anchor 100.
\<close>

definition demo_forecast :: timeseries where
  "demo_forecast = [(1, ln (102 / 100)), (2, ln (101 / 102))]"

definition demo_ext :: externals where
  "demo_ext =
     \<lparr>from_dataframe = demo_from_dataframe, rmse = demo_rmse, freq = demo_freq,
      read_csv = (\<lambda>coin timeframe col_names. Inr demo_prices)\<rparr>"

definition log_pred :: "(int \<times> real) list \<Rightarrow> table" where
  "log_pred rs = \<lparr>time_col = ''time'', value_col = ''log returns'', rows = rs\<rparr>"

definition log_test :: "(int \<times> real) list \<Rightarrow> table" where
  "log_test rs = \<lparr>time_col = ''date'', value_col = ''log returns'', rows = rs\<rparr>"

text \<open>The store with no artifact at all.\<close>

definition empty_store :: world where
  "empty_store = \<lparr>files = Map.empty, stdout = []\<rparr>"

text \<open>A store with a prediction for fold 0 and nothing else.\<close>

definition store_pred0_only :: world where
  "store_pred0_only =
     \<lparr>files = [''out/log_returns/ARIMA/BTC/1d/pred_0.csv'' \<mapsto> log_pred [(1, 1), (2, 0)]],
      stdout = []\<rparr>"

text \<open>A store with fold 0 complete and no file of fold 1.\<close>

definition store_fold0 :: world where
  "store_fold0 =
     \<lparr>files = [''out/log_returns/ARIMA/BTC/1d/pred_0.csv'' \<mapsto> log_pred [(1, 1), (2, 0)],
               ''out/log_returns/ARIMA/BTC/1d/test_0.csv'' \<mapsto> log_test [(1, 1), (2, 0)]],
      stdout = []\<rparr>"

text \<open>
  A store with all five folds of one model: fold \<open>i\<close> covers the timestamps \<open>2i+1\<close> and
  \<open>2i+2\<close>, and each test file holds the values of its prediction file.
\<close>

definition store_five :: world where
  "store_five =
     \<lparr>files = map_of
        [(''out/log_returns/ARIMA/BTC/1d/pred_0.csv'', log_pred [(1, 1), (2, 0)]),
         (''out/log_returns/ARIMA/BTC/1d/test_0.csv'', log_test [(1, 1), (2, 0)]),
         (''out/log_returns/ARIMA/BTC/1d/pred_1.csv'', log_pred [(3, 2), (4, 0)]),
         (''out/log_returns/ARIMA/BTC/1d/test_1.csv'', log_test [(3, 2), (4, 0)]),
         (''out/log_returns/ARIMA/BTC/1d/pred_2.csv'', log_pred [(5, 3), (6, 0)]),
         (''out/log_returns/ARIMA/BTC/1d/test_2.csv'', log_test [(5, 3), (6, 0)]),
         (''out/log_returns/ARIMA/BTC/1d/pred_3.csv'', log_pred [(7, 4), (8, 0)]),
         (''out/log_returns/ARIMA/BTC/1d/test_3.csv'', log_test [(7, 4), (8, 0)]),
         (''out/log_returns/ARIMA/BTC/1d/pred_4.csv'', log_pred [(9, 5), (10, 0)]),
         (''out/log_returns/ARIMA/BTC/1d/test_4.csv'', log_test [(9, 5), (10, 0)])],
      stdout = []\<rparr>"

text \<open>A store with all five folds of one model of the raw family, holding prices.\<close>

definition close_pred :: "(int \<times> real) list \<Rightarrow> table" where
  "close_pred rs = \<lparr>time_col = ''time'', value_col = ''close'', rows = rs\<rparr>"

definition close_test :: "(int \<times> real) list \<Rightarrow> table" where
  "close_test rs = \<lparr>time_col = ''date'', value_col = ''close'', rows = rs\<rparr>"

definition store_raw :: world where
  "store_raw =
     \<lparr>files = map_of
        [(''out/raw/ARIMA/BTC/1d/pred_0.csv'', close_pred [(1, 101), (2, 100)]),
         (''out/raw/ARIMA/BTC/1d/test_0.csv'', close_test [(1, 101), (2, 100)]),
         (''out/raw/ARIMA/BTC/1d/pred_1.csv'', close_pred [(3, 102), (4, 100)]),
         (''out/raw/ARIMA/BTC/1d/test_1.csv'', close_test [(3, 102), (4, 100)]),
         (''out/raw/ARIMA/BTC/1d/pred_2.csv'', close_pred [(5, 103), (6, 100)]),
         (''out/raw/ARIMA/BTC/1d/test_2.csv'', close_test [(5, 103), (6, 100)]),
         (''out/raw/ARIMA/BTC/1d/pred_3.csv'', close_pred [(7, 104), (8, 100)]),
         (''out/raw/ARIMA/BTC/1d/test_3.csv'', close_test [(7, 104), (8, 100)]),
         (''out/raw/ARIMA/BTC/1d/pred_4.csv'', close_pred [(9, 105), (10, 100)]),
         (''out/raw/ARIMA/BTC/1d/test_4.csv'', close_test [(9, 105), (10, 100)])],
      stdout = []\<rparr>"

text \<open>A store with one file under a family that the configuration does not know.\<close>

definition store_bogus :: world where
  "store_bogus =
     \<lparr>files = [''out/bogus/ARIMA/BTC/1d/pred_0.csv'' \<mapsto> log_pred [(1, 1), (2, 0)]],
      stdout = []\<rparr>"

text \<open>
  The same store with one more file: the prediction of fold 0 of a second model, whose test
  file is missing.
\<close>

definition store_five_broken :: world where
  "store_five_broken =
     \<lparr>files = map_of
        [(''out/log_returns/ARIMA/BTC/1d/pred_0.csv'', log_pred [(1, 1), (2, 0)]),
         (''out/log_returns/ARIMA/BTC/1d/test_0.csv'', log_test [(1, 1), (2, 0)]),
         (''out/log_returns/ARIMA/BTC/1d/pred_1.csv'', log_pred [(3, 2), (4, 0)]),
         (''out/log_returns/ARIMA/BTC/1d/test_1.csv'', log_test [(3, 2), (4, 0)]),
         (''out/log_returns/ARIMA/BTC/1d/pred_2.csv'', log_pred [(5, 3), (6, 0)]),
         (''out/log_returns/ARIMA/BTC/1d/test_2.csv'', log_test [(5, 3), (6, 0)]),
         (''out/log_returns/ARIMA/BTC/1d/pred_3.csv'', log_pred [(7, 4), (8, 0)]),
         (''out/log_returns/ARIMA/BTC/1d/test_3.csv'', log_test [(7, 4), (8, 0)]),
         (''out/log_returns/ARIMA/BTC/1d/pred_4.csv'', log_pred [(9, 5), (10, 0)]),
         (''out/log_returns/ARIMA/BTC/1d/test_4.csv'', log_test [(9, 5), (10, 0)]),
         (''out/log_returns/RNN/BTC/1d/pred_0.csv'', log_pred [(1, 1), (2, 0)])],
      stdout = []\<rparr>"

text \<open>
  A store with all five folds of one model, in chronological order but with a gap between
  the folds: fold \<open>i\<close> covers the timestamps \<open>3i+1\<close> and \<open>3i+2\<close>.
\<close>

definition store_gap :: world where
  "store_gap =
     \<lparr>files = map_of
        [(''out/log_returns/ARIMA/BTC/1d/pred_0.csv'', log_pred [(1, 1), (2, 0)]),
         (''out/log_returns/ARIMA/BTC/1d/test_0.csv'', log_test [(1, 1), (2, 0)]),
         (''out/log_returns/ARIMA/BTC/1d/pred_1.csv'', log_pred [(4, 2), (5, 0)]),
         (''out/log_returns/ARIMA/BTC/1d/test_1.csv'', log_test [(4, 2), (5, 0)]),
         (''out/log_returns/ARIMA/BTC/1d/pred_2.csv'', log_pred [(7, 3), (8, 0)]),
         (''out/log_returns/ARIMA/BTC/1d/test_2.csv'', log_test [(7, 3), (8, 0)]),
         (''out/log_returns/ARIMA/BTC/1d/pred_3.csv'', log_pred [(10, 4), (11, 0)]),
         (''out/log_returns/ARIMA/BTC/1d/test_3.csv'', log_test [(10, 4), (11, 0)]),
         (''out/log_returns/ARIMA/BTC/1d/pred_4.csv'', log_pred [(13, 5), (14, 0)]),
         (''out/log_returns/ARIMA/BTC/1d/test_4.csv'', log_test [(13, 5), (14, 0)])],
      stdout = []\<rparr>"

section \<open>The keyword mismatch in log_returns_to_price\<close>

lemma call_unexpected_keyword:
  "call_get_predictions ext cfg w
     [(''model'', a), (''forecasting_model'', b), (''coin'', c), (''time_frame'', d),
      (''concatenated'', e)] = (w, Inl TypeError)"
  by (simp add: call_get_predictions_def bind_keywords_def get_predictions_params_def)

text \<open>
  C1.  \<^verbatim>\<open>log_returns_to_price\<close> passes the keyword \<^verbatim>\<open>forecasting_model\<close> to
  \<^verbatim>\<open>get_predictions\<close>, whose parameter is \<^verbatim>\<open>model_name\<close>.  So for every family, model name,
  asset and resolution (and every store, configuration and library behaviour) the call
  raises \<^verbatim>\<open>TypeError\<close>: the result is that error, and the world is the one it started in, no
  file written and no line printed.
\<close>

theorem log_returns_to_price_always_TypeError:
  "log_returns_to_price ext cfg w model forecasting_model coin time_frame = (w, Inl TypeError)"
  by (simp add: log_returns_to_price_def call_unexpected_keyword)

section \<open>Facts about the loader\<close>

lemma read_fold_files:
  "read_fold ext w vc pp tp = Inr f \<Longrightarrow> files w pp \<noteq> None \<and> files w tp \<noteq> None"
  by (auto simp: read_fold_def split: option.splits sum.splits)

lemma read_fold_Inr:
  assumes "read_fold ext w (Some vc) pp tp = Inr (pred, test, r)"
  shows "\<exists>pc tc. files w pp = Some pc \<and> files w tp = Some tc
    \<and> from_dataframe ext pc ''time'' vc = Inr pred
    \<and> from_dataframe ext tc ''date'' vc = Inr test
    \<and> rmse ext test pred = Inr r"
  using assms by (auto simp: read_fold_def split: option.splits sum.splits)

lemma read_fold_files_cong:
  "files w = files w' \<Longrightarrow> read_fold ext w vc pp tp = read_fold ext w' vc pp tp"
  by (auto simp: read_fold_def split: option.splits sum.splits)

lemma periods_loop_loaded_files:
  "periods_loop ext cfg w model model_name coin time_frame vc ps preds tests rmses
     = (w', Inr (Some b)) \<Longrightarrow> j \<in> set ps \<Longrightarrow>
   files w (pred_path (file_loc cfg model model_name coin time_frame) j) \<noteq> None \<and>
   files w (test_path (file_loc cfg model model_name coin time_frame) j) \<noteq> None"
proof (induction ps arbitrary: preds tests rmses)
  case Nil
  then show ?case by simp
next
  case (Cons p ps)
  from Cons.prems(1) obtain pred test r where
    rf: "read_fold ext w vc (pred_path (file_loc cfg model model_name coin time_frame) p)
           (test_path (file_loc cfg model model_name coin time_frame) p) = Inr (pred, test, r)" and
    rest: "periods_loop ext cfg w model model_name coin time_frame vc ps
             (preds @ [pred]) (tests @ [test]) (rmses @ [r]) = (w', Inr (Some b))"
    by (auto simp: Let_def split: if_splits sum.splits)
  show ?case
  proof (cases "j = p")
    case True
    with rf show ?thesis using read_fold_files by blast
  next
    case False
    with Cons.prems(2) have "j \<in> set ps" by simp
    with Cons.IH rest show ?thesis by blast
  qed
qed

lemma periods_loop_first_missing:
  assumes "\<forall>j \<in> set js. \<exists>f. read_fold ext w vc
              (pred_path (file_loc cfg model model_name coin time_frame) j)
              (test_path (file_loc cfg model model_name coin time_frame) j) = Inr f"
    and "files w (pred_path (file_loc cfg model model_name coin time_frame) k) = None"
  shows "periods_loop ext cfg w model model_name coin time_frame vc (js @ k # rest)
           preds tests rmses
     = (print w (''Warning the following file does not exist: ''
                   @ pred_path (file_loc cfg model model_name coin time_frame) k), Inr None)"
  using assms
proof (induction js arbitrary: preds tests rmses)
  case Nil
  then show ?case by (simp add: path_exists_def)
next
  case (Cons j js)
  from Cons.prems(1) obtain pred test r where
    rf: "read_fold ext w vc (pred_path (file_loc cfg model model_name coin time_frame) j)
           (test_path (file_loc cfg model model_name coin time_frame) j) = Inr (pred, test, r)"
    by (metis list.set_intros(1) prod_cases3)
  then have "path_exists w (pred_path (file_loc cfg model model_name coin time_frame) j)"
    using read_fold_files by (simp add: path_exists_def)
  with rf Cons show ?case by simp
qed

lemma periods_split: "k < 5 \<Longrightarrow> [0, 1, 2, 3, 4::nat] = [0..<k] @ k # [Suc k..<5]"
proof -
  assume "k < 5"
  then have "[0..<5] = [0..<k] @ k # [Suc k..<5]"
    by (metis less_imp_le_nat upt_add_eq_append upt_conv_Cons zero_le le_add_diff_inverse)
  moreover have "[0..<5] = [0, 1, 2, 3, 4::nat]" by (simp add: upt_rec)
  ultimately show ?thesis by simp
qed

lemma periods_loop_unbound:
  "periods_loop ext cfg w model model_name coin time_frame None (p # rest) preds tests rmses
     = (if files w (pred_path (file_loc cfg model model_name coin time_frame) p) = None
        then (print w (''Warning the following file does not exist: ''
                @ pred_path (file_loc cfg model model_name coin time_frame) p), Inr None)
        else (w, Inl UnboundLocalError))"
  by (auto simp: path_exists_def read_fold_def Let_def)

lemma periods_loop_lengths:
  "periods_loop ext cfg w model model_name coin time_frame vc periods preds tests rmses
     = (w1, Inr (Some (ps, ts, rs))) \<Longrightarrow>
   w1 = w \<and> length ps = length preds + length periods \<and>
   length ts = length tests + length periods \<and> length rs = length rmses + length periods"
proof (induction periods arbitrary: preds tests rmses)
  case Nil
  then show ?case by simp
next
  case (Cons p periods)
  from Cons.prems obtain pred test r where
    "periods_loop ext cfg w model model_name coin time_frame vc periods
       (preds @ [pred]) (tests @ [test]) (rmses @ [r]) = (w1, Inr (Some (ps, ts, rs)))"
    by (auto simp: Let_def split: if_splits sum.splits)
  from Cons.IH [OF this] show ?case by simp
qed

lemma periods_loop_folds:
  "periods_loop ext cfg w model model_name coin time_frame vc periods preds tests rmses
     = (w1, Inr (Some (ps, ts, rs))) \<Longrightarrow>
   \<exists>folds. length folds = length periods
     \<and> ps = preds @ map fst folds
     \<and> ts = tests @ map (\<lambda>f. fst (snd f)) folds
     \<and> rs = rmses @ map (\<lambda>f. snd (snd f)) folds
     \<and> (\<forall>i < length periods.
          read_fold ext w vc
            (pred_path (file_loc cfg model model_name coin time_frame) (periods ! i))
            (test_path (file_loc cfg model model_name coin time_frame) (periods ! i))
          = Inr (folds ! i))"
proof (induction periods arbitrary: preds tests rmses)
  case Nil
  then show ?case by simp
next
  case (Cons p periods)
  from Cons.prems obtain pred test r where
    rf: "read_fold ext w vc (pred_path (file_loc cfg model model_name coin time_frame) p)
           (test_path (file_loc cfg model model_name coin time_frame) p) = Inr (pred, test, r)"
    and rest: "periods_loop ext cfg w model model_name coin time_frame vc periods
       (preds @ [pred]) (tests @ [test]) (rmses @ [r]) = (w1, Inr (Some (ps, ts, rs)))"
    by (auto simp: Let_def split: if_splits sum.splits)
  from Cons.IH [OF rest] obtain folds where
    f: "length folds = length periods"
      "ps = (preds @ [pred]) @ map fst folds"
      "ts = (tests @ [test]) @ map (\<lambda>f. fst (snd f)) folds"
      "rs = (rmses @ [r]) @ map (\<lambda>f. snd (snd f)) folds"
      "\<forall>i < length periods.
          read_fold ext w vc
            (pred_path (file_loc cfg model model_name coin time_frame) (periods ! i))
            (test_path (file_loc cfg model model_name coin time_frame) (periods ! i))
          = Inr (folds ! i)"
    by blast
  have "\<forall>i < length (p # periods).
          read_fold ext w vc
            (pred_path (file_loc cfg model model_name coin time_frame) ((p # periods) ! i))
            (test_path (file_loc cfg model model_name coin time_frame) ((p # periods) ! i))
          = Inr (((pred, test, r) # folds) ! i)"
  proof (intro allI impI)
    fix i assume "i < length (p # periods)"
    with rf f(5) show "read_fold ext w vc
            (pred_path (file_loc cfg model model_name coin time_frame) ((p # periods) ! i))
            (test_path (file_loc cfg model model_name coin time_frame) ((p # periods) ! i))
          = Inr (((pred, test, r) # folds) ! i)"
      by (cases i) auto
  qed
  with f(1-4) show ?case
    by (intro exI [of _ "(pred, test, r) # folds"]) simp
qed

lemma periods_loop_files_cong:
  "files w = files w' \<Longrightarrow>
   snd (periods_loop ext cfg w model model_name coin time_frame vc periods preds tests rmses)
   = snd (periods_loop ext cfg w' model model_name coin time_frame vc periods preds tests rmses)"
proof (induction periods arbitrary: preds tests rmses)
  case Nil
  then show ?case by simp
next
  case (Cons p periods)
  then show ?case
    using read_fold_files_cong [of w w' ext vc]
    by (auto simp: Let_def path_exists_def split: sum.splits)
qed

lemma periods_loop_files:
  "files (fst (periods_loop ext cfg w model model_name coin time_frame vc periods
     preds tests rmses)) = files w"
  by (induction periods arbitrary: preds tests rmses)
     (auto simp: Let_def print_def split: sum.splits)

lemma get_predictions_loaded_files:
  assumes "snd (get_predictions ext cfg w model model_name coin time_frame concatenated)
             = Inr (Some b)"
    and "k < 5"
  shows "files w (pred_path (file_loc cfg model model_name coin time_frame) k) \<noteq> None \<and>
         files w (test_path (file_loc cfg model model_name coin time_frame) k) \<noteq> None"
proof -
  obtain w1 r where L: "periods_loop ext cfg w model model_name coin time_frame
      (select_value_cols cfg model) [0, 1, 2, 3, 4] [] [] [] = (w1, r)"
    by (cases "periods_loop ext cfg w model model_name coin time_frame
      (select_value_cols cfg model) [0, 1, 2, 3, 4] [] [] []")
  from assms(1) obtain l where "r = Inr (Some l)"
    unfolding get_predictions_def L
    by (auto split: sum.splits option.splits if_splits list.splits)
  with L have "periods_loop ext cfg w model model_name coin time_frame
      (select_value_cols cfg model) [0, 1, 2, 3, 4] [] [] [] = (w1, Inr (Some l))"
    by simp
  moreover from assms(2) have "k \<in> set [0, 1, 2, 3, 4::nat]" by auto
  ultimately show ?thesis by (rule periods_loop_loaded_files)
qed

lemma get_predictions_of_loop:
  assumes "periods_loop ext cfg w model model_name coin time_frame
             (select_value_cols cfg model) [0, 1, 2, 3, 4] [] [] []
           = (w1, Inr (Some (ps, ts, rs)))"
  shows "get_predictions ext cfg w model model_name coin time_frame concatenated
     = (if model \<noteq> extended_model cfg \<and> concatenated
        then (w, case concatenate ext ps of Inl e \<Rightarrow> Inl e
                 | Inr p \<Rightarrow> (case concatenate ext ts of Inl e \<Rightarrow> Inl e
                            | Inr t \<Rightarrow> Inr (Some (Single p, Single t, rs))))
        else (w, Inr (Some (Many ps, Single (ts ! 0), rs))))"
proof -
  from periods_loop_lengths [OF assms] have len: "w1 = w" "length ts = 5" by simp_all
  from len(2) obtain t0 ts' where ts: "ts = t0 # ts'" by (cases ts) auto
  show ?thesis
    unfolding get_predictions_def assms using len(1) ts
    by (simp split: sum.splits)
qed

lemma get_predictions_loaded_loop:
  assumes "snd (get_predictions ext cfg w model model_name coin time_frame concatenated)
     = Inr (Some (p, t, rs))"
  shows "\<exists>w1 ps ts. periods_loop ext cfg w model model_name coin time_frame
             (select_value_cols cfg model) [0, 1, 2, 3, 4] [] [] []
           = (w1, Inr (Some (ps, ts, rs)))
         \<and> (\<forall>qs. p = Many qs \<longrightarrow> qs = ps)"
proof -
  obtain w1 r where L: "periods_loop ext cfg w model model_name coin time_frame
      (select_value_cols cfg model) [0, 1, 2, 3, 4] [] [] [] = (w1, r)"
    by (cases "periods_loop ext cfg w model model_name coin time_frame
      (select_value_cols cfg model) [0, 1, 2, 3, 4] [] [] []")
  from assms obtain ps ts where "r = Inr (Some (ps, ts, rs))" "\<forall>qs. p = Many qs \<longrightarrow> qs = ps"
    unfolding get_predictions_def L
    by (auto split: sum.splits option.splits if_splits list.splits)
  with L show ?thesis by blast
qed

lemma get_predictions_parsed:
  assumes "select_value_cols cfg model = Some vc"
    and "snd (get_predictions ext cfg w model model_name coin time_frame concatenated)
           = Inr (Some (p, t, rs))"
    and "i < 5"
  shows "\<exists>pc tc pred test.
      files w (pred_path (file_loc cfg model model_name coin time_frame) i) = Some pc
    \<and> files w (test_path (file_loc cfg model model_name coin time_frame) i) = Some tc
    \<and> from_dataframe ext pc ''time'' vc = Inr pred
    \<and> from_dataframe ext tc ''date'' vc = Inr test
    \<and> rmse ext test pred = Inr (rs ! i)
    \<and> (\<forall>qs. p = Many qs \<longrightarrow> qs ! i = pred)"
proof -
  from get_predictions_loaded_loop [OF assms(2)] obtain w1 ps ts where
    L: "periods_loop ext cfg w model model_name coin time_frame
             (select_value_cols cfg model) [0, 1, 2, 3, 4] [] [] []
           = (w1, Inr (Some (ps, ts, rs)))" and
    q: "\<forall>qs. p = Many qs \<longrightarrow> qs = ps"
    by blast
  from periods_loop_folds [OF L] obtain folds where
    f0: "length folds = length [0, 1, 2, 3, 4::nat]"
      "ps = [] @ map fst folds" "rs = [] @ map (\<lambda>f. snd (snd f)) folds"
      "\<forall>i < length [0, 1, 2, 3, 4::nat].
          read_fold ext w (select_value_cols cfg model)
            (pred_path (file_loc cfg model model_name coin time_frame) ([0, 1, 2, 3, 4] ! i))
            (test_path (file_loc cfg model model_name coin time_frame) ([0, 1, 2, 3, 4] ! i))
          = Inr (folds ! i)"
    by blast
  from f0(1-3) have f: "length folds = 5" "ps = map fst folds"
    "rs = map (\<lambda>f. snd (snd f)) folds"
    by simp_all
  from assms(3) have idx: "[0, 1, 2, 3, 4::nat] ! i = i"
    by (auto simp: less_Suc_eq numeral_eq_Suc)
  obtain pred test r where fi: "folds ! i = (pred, test, r)" by (cases "folds ! i")
  from assms(3) have il: "i < length [0, 1, 2, 3, 4::nat]" by simp
  from f0(4) il have "read_fold ext w (select_value_cols cfg model)
            (pred_path (file_loc cfg model model_name coin time_frame) ([0, 1, 2, 3, 4] ! i))
            (test_path (file_loc cfg model model_name coin time_frame) ([0, 1, 2, 3, 4] ! i))
          = Inr (folds ! i)"
    by blast
  then have "read_fold ext w (Some vc)
            (pred_path (file_loc cfg model model_name coin time_frame) i)
            (test_path (file_loc cfg model model_name coin time_frame) i)
          = Inr (pred, test, r)"
    unfolding idx fi assms(1) .
  from read_fold_Inr [OF this] obtain pc tc where
    "files w (pred_path (file_loc cfg model model_name coin time_frame) i) = Some pc"
    "files w (test_path (file_loc cfg model model_name coin time_frame) i) = Some tc"
    "from_dataframe ext pc ''time'' vc = Inr pred"
    "from_dataframe ext tc ''date'' vc = Inr test"
    "rmse ext test pred = Inr r"
    by blast
  moreover from f(1,3) fi assms(3) have "rs ! i = r" by simp
  moreover from f(1,2) fi assms(3) have "ps ! i = pred" by simp
  with q have "\<forall>qs. p = Many qs \<longrightarrow> qs ! i = pred" by blast
  ultimately show ?thesis by blast
qed

lemma get_predictions_files:
  "files (fst (get_predictions ext cfg w model model_name coin time_frame concatenated))
     = files w"
proof -
  obtain w1 r where L: "periods_loop ext cfg w model model_name coin time_frame
      (select_value_cols cfg model) [0, 1, 2, 3, 4] [] [] [] = (w1, r)"
    by (cases "periods_loop ext cfg w model model_name coin time_frame
      (select_value_cols cfg model) [0, 1, 2, 3, 4] [] [] []")
  with periods_loop_files [of ext cfg w model model_name coin time_frame
      "select_value_cols cfg model" "[0, 1, 2, 3, 4]" "[]" "[]" "[]"]
  have "files w1 = files w" by simp
  then show ?thesis
    unfolding get_predictions_def L
    by (simp split: sum.splits option.splits list.splits)
qed

lemma get_predictions_files_cong:
  assumes "files w = files w'"
  shows "snd (get_predictions ext cfg w model model_name coin time_frame concatenated)
   = snd (get_predictions ext cfg w' model model_name coin time_frame concatenated)"
proof -
  obtain w1 r where L: "periods_loop ext cfg w model model_name coin time_frame
      (select_value_cols cfg model) [0, 1, 2, 3, 4] [] [] [] = (w1, r)"
    by (cases "periods_loop ext cfg w model model_name coin time_frame
      (select_value_cols cfg model) [0, 1, 2, 3, 4] [] [] []")
  obtain w1' r' where L': "periods_loop ext cfg w' model model_name coin time_frame
      (select_value_cols cfg model) [0, 1, 2, 3, 4] [] [] [] = (w1', r')"
    by (cases "periods_loop ext cfg w' model model_name coin time_frame
      (select_value_cols cfg model) [0, 1, 2, 3, 4] [] [] []")
  from periods_loop_files_cong [OF assms, of ext cfg model model_name coin time_frame
      "select_value_cols cfg model" "[0, 1, 2, 3, 4]" "[]" "[]" "[]"] L L'
  have "r' = r" by simp
  then show ?thesis
    unfolding get_predictions_def L L'
    by (simp split: sum.splits option.splits list.splits)
qed

lemma get_predictions_rmses:
  assumes "snd (get_predictions ext cfg w model model_name coin time_frame concatenated)
     = Inr (Some (p, t, rs))"
  shows "length rs = 5"
proof -
  obtain w1 r where L: "periods_loop ext cfg w model model_name coin time_frame
      (select_value_cols cfg model) [0, 1, 2, 3, 4] [] [] [] = (w1, r)"
    by (cases "periods_loop ext cfg w model model_name coin time_frame
      (select_value_cols cfg model) [0, 1, 2, 3, 4] [] [] []")
  from assms obtain ps ts where "r = Inr (Some (ps, ts, rs))"
    unfolding get_predictions_def L
    by (auto split: sum.splits option.splits if_splits list.splits)
  with L periods_loop_lengths [of ext cfg w model model_name coin time_frame
      "select_value_cols cfg model" "[0, 1, 2, 3, 4]" "[]" "[]" "[]" w1 ps ts rs]
  show ?thesis by simp
qed

lemma call_by_model_name:
  "call_get_predictions ext cfg w
     [(''model'', PStr model), (''model_name'', PStr model_name), (''coin'', PStr coin),
      (''time_frame'', PStr time_frame)]
   = get_predictions ext cfg w model model_name coin time_frame True"
  by (simp add: call_get_predictions_def bind_keywords_def get_predictions_params_def
      get_predictions_defaults_def)

section \<open>Facts about the concatenation\<close>

lemma length_concat_map: "length (concat (map (map f) xss)) = length (concat xss)"
  by (induction xss) auto

lemma concatenate_Inr:
  assumes "concatenate ext series = Inr p"
  shows "\<exists>st. start_time (series ! 0) = Inr st
    \<and> p = zip (map (\<lambda>i. st + int i * freq ext (series ! 0)) [0..<length (concat series)])
              (concat (map (map snd) series))"
  using assms
  by (cases series)
     (auto simp: concatenate_def Let_def length_concat_map [of snd, simplified]
       split: sum.splits if_splits)

lemma concatenate_values:
  assumes "concatenate ext series = Inr p"
  shows "map snd p = concat (map (map snd) series) \<and> length p = sum_list (map length series)
    \<and> (\<exists>st. start_time (series ! 0) = Inr st
          \<and> map fst p = map (\<lambda>i. st + int i * freq ext (series ! 0)) [0..<length p])"
proof -
  have len: "length (concat (map (map snd) series)) = length (concat series)"
    by (rule length_concat_map)
  from concatenate_Inr [OF assms] obtain st where
    st: "start_time (series ! 0) = Inr st" and
    p: "p = zip (map (\<lambda>i. st + int i * freq ext (series ! 0)) [0..<length (concat series)])
              (concat (map (map snd) series))"
    by blast
  from p len have l: "length p = length (concat series)" by simp
  from p len have "map snd p = concat (map (map snd) series)" by simp
  moreover from p len l
  have "map fst p = map (\<lambda>i. st + int i * freq ext (series ! 0)) [0..<length p]" by simp
  ultimately show ?thesis using st l by (auto simp: length_concat)
qed

lemma consecutive_first:
  "consecutive_time_axes f (a # b # rest) = Inr ok \<Longrightarrow> \<exists>st. start_time a = Inr st"
  by (auto simp: start_time_def end_time_def split: list.splits sum.splits)

lemma concatenate_consecutive:
  assumes "2 \<le> length series"
    and "consecutive_time_axes (freq ext (series ! 0)) series = Inr True"
  shows "\<exists>p. concatenate ext series = Inr p"
proof -
  from assms(1) obtain a b rest where s: "series = a # b # rest"
    by (cases series; cases "tl series") auto
  with assms(2) consecutive_first [of "freq ext a" a b rest True]
  obtain st where "start_time a = Inr st" by auto
  with s assms(2) show ?thesis by (simp add: concatenate_def Let_def)
qed

lemma rebuilt_sorted:
  assumes "0 < (f::int)"
  shows "sorted_wrt (<) (map (\<lambda>i. st + int i * f) [0..<n])"
proof -
  have "sorted_wrt (\<lambda>i j. st + int i * f < st + int j * f) [0..<n]"
    using assms by (intro sorted_wrt_mono_rel [OF _ sorted_wrt_upt]) simp
  then show ?thesis by (simp add: sorted_wrt_map)
qed

section \<open>Evaluation on the example stores\<close>

lemmas demo_eval = pred_path_def test_path_def file_loc_def demo_cfg_def str_nat.simps
  digit_char_def select_value_cols_def path_exists_def read_fold_def demo_ext_def
  demo_from_dataframe_def regular_index_def demo_rmse_def log_pred_def log_test_def
  close_pred_def close_test_def Let_def

lemma demo_paths:
  "pred_path (file_loc demo_cfg ''log_returns'' ''ARIMA'' ''BTC'' ''1d'') 0
     = ''out/log_returns/ARIMA/BTC/1d/pred_0.csv''"
  "test_path (file_loc demo_cfg ''log_returns'' ''ARIMA'' ''BTC'' ''1d'') 0
     = ''out/log_returns/ARIMA/BTC/1d/test_0.csv''"
  "pred_path (file_loc demo_cfg ''log_returns'' ''ARIMA'' ''BTC'' ''1d'') 1
     = ''out/log_returns/ARIMA/BTC/1d/pred_1.csv''"
  by (simp_all add: pred_path_def test_path_def file_loc_def demo_cfg_def str_nat.simps
      digit_char_def)

lemma demo_value_cols: "select_value_cols demo_cfg ''log_returns'' = Some [''log returns'']"
  by (simp add: select_value_cols_def demo_cfg_def)

lemma demo_concatenate:
  "concatenate demo_ext [[(1, 1), (2, 0)], [(3, 2), (4, 0)], [(5, 3), (6, 0)],
        [(7, 4), (8, 0)], [(9, 5), (10, 0)]]
      = Inr [(1, 1), (2, 0), (3, 2), (4, 0), (5, 3), (6, 0), (7, 4), (8, 0), (9, 5), (10, 0)]"
  by (simp add: concatenate_def start_time_def end_time_def demo_ext_def demo_freq_def upt_rec)

lemma demo_concatenate_gap:
  "concatenate demo_ext [[(1, 1), (2, 0)], [(4, 2), (5, 0)], [(7, 3), (8, 0)],
        [(10, 4), (11, 0)], [(13, 5), (14, 0)]] = Inl ValueError"
  by (simp add: concatenate_def start_time_def end_time_def demo_ext_def demo_freq_def)

lemma demo_not_extended: "''log_returns'' \<noteq> extended_model demo_cfg"
  by (simp add: demo_cfg_def)

lemma store_five_loop:
  "periods_loop demo_ext demo_cfg store_five ''log_returns'' ''ARIMA'' ''BTC'' ''1d''
     (select_value_cols demo_cfg ''log_returns'') [0, 1, 2, 3, 4] [] [] []
   = (store_five,
      Inr (Some ([[(1, 1), (2, 0)], [(3, 2), (4, 0)], [(5, 3), (6, 0)], [(7, 4), (8, 0)],
                  [(9, 5), (10, 0)]],
                 [[(1, 1), (2, 0)], [(3, 2), (4, 0)], [(5, 3), (6, 0)], [(7, 4), (8, 0)],
                  [(9, 5), (10, 0)]],
                 [0, 0, 0, 0, 0])))"
  by (simp add: demo_eval store_five_def)

lemma store_five_per_fold:
  "get_predictions demo_ext demo_cfg store_five ''log_returns'' ''ARIMA'' ''BTC'' ''1d'' False
     = (store_five,
        Inr (Some (Many [[(1, 1), (2, 0)], [(3, 2), (4, 0)], [(5, 3), (6, 0)], [(7, 4), (8, 0)],
                         [(9, 5), (10, 0)]],
                   Single [(1, 1), (2, 0)], [0, 0, 0, 0, 0])))"
  unfolding get_predictions_def store_five_loop by simp

lemma store_five_arima:
  "get_predictions demo_ext demo_cfg store_five ''log_returns'' ''ARIMA'' ''BTC'' ''1d'' True
     = (store_five,
        Inr (Some (Single [(1, 1), (2, 0), (3, 2), (4, 0), (5, 3), (6, 0), (7, 4), (8, 0),
                           (9, 5), (10, 0)],
                   Single [(1, 1), (2, 0), (3, 2), (4, 0), (5, 3), (6, 0), (7, 4), (8, 0),
                           (9, 5), (10, 0)],
                   [0, 0, 0, 0, 0])))"
  unfolding get_predictions_def store_five_loop
  by (simp add: demo_not_extended demo_concatenate)

lemma store_five_others:
  "snd (get_predictions demo_ext demo_cfg store_five ''log_returns'' ''RNN'' ''BTC'' ''1d'' True)
     = Inr None"
  "snd (get_predictions demo_ext demo_cfg store_five ''log_returns'' ''XGB'' ''BTC'' ''1d'' True)
     = Inr None"
  by (simp_all add: get_predictions_def demo_eval store_five_def)

lemma store_gap_loop:
  "periods_loop demo_ext demo_cfg store_gap ''log_returns'' ''ARIMA'' ''BTC'' ''1d''
     (select_value_cols demo_cfg ''log_returns'') [0, 1, 2, 3, 4] [] [] []
   = (store_gap,
      Inr (Some ([[(1, 1), (2, 0)], [(4, 2), (5, 0)], [(7, 3), (8, 0)], [(10, 4), (11, 0)],
                  [(13, 5), (14, 0)]],
                 [[(1, 1), (2, 0)], [(4, 2), (5, 0)], [(7, 3), (8, 0)], [(10, 4), (11, 0)],
                  [(13, 5), (14, 0)]],
                 [0, 0, 0, 0, 0])))"
  by (simp add: demo_eval store_gap_def)

lemma store_raw_loop:
  "periods_loop demo_ext demo_cfg store_raw ''raw'' ''ARIMA'' ''BTC'' ''1d''
     (select_value_cols demo_cfg ''raw'') [0, 1, 2, 3, 4] [] [] []
   = (store_raw,
      Inr (Some ([[(1, 101), (2, 100)], [(3, 102), (4, 100)], [(5, 103), (6, 100)],
                  [(7, 104), (8, 100)], [(9, 105), (10, 100)]],
                 [[(1, 101), (2, 100)], [(3, 102), (4, 100)], [(5, 103), (6, 100)],
                  [(7, 104), (8, 100)], [(9, 105), (10, 100)]],
                 [0, 0, 0, 0, 0])))"
  by (simp add: demo_eval store_raw_def)

lemma store_raw_per_fold:
  "get_predictions demo_ext demo_cfg store_raw ''raw'' ''ARIMA'' ''BTC'' ''1d'' False
     = (store_raw,
        Inr (Some (Many [[(1, 101), (2, 100)], [(3, 102), (4, 100)], [(5, 103), (6, 100)],
                         [(7, 104), (8, 100)], [(9, 105), (10, 100)]],
                   Single [(1, 101), (2, 100)], [0, 0, 0, 0, 0])))"
  unfolding get_predictions_def store_raw_loop by simp

lemma store_five_broken_arima:
  "get_predictions demo_ext demo_cfg store_five_broken ''log_returns'' ''ARIMA'' ''BTC'' ''1d''
     True
     = (store_five_broken,
        Inr (Some (Single [(1, 1), (2, 0), (3, 2), (4, 0), (5, 3), (6, 0), (7, 4), (8, 0),
                           (9, 5), (10, 0)],
                   Single [(1, 1), (2, 0), (3, 2), (4, 0), (5, 3), (6, 0), (7, 4), (8, 0),
                           (9, 5), (10, 0)],
                   [0, 0, 0, 0, 0])))"
proof -
  have "periods_loop demo_ext demo_cfg store_five_broken ''log_returns'' ''ARIMA'' ''BTC''
      ''1d'' (select_value_cols demo_cfg ''log_returns'') [0, 1, 2, 3, 4] [] [] []
   = (store_five_broken,
      Inr (Some ([[(1, 1), (2, 0)], [(3, 2), (4, 0)], [(5, 3), (6, 0)], [(7, 4), (8, 0)],
                  [(9, 5), (10, 0)]],
                 [[(1, 1), (2, 0)], [(3, 2), (4, 0)], [(5, 3), (6, 0)], [(7, 4), (8, 0)],
                  [(9, 5), (10, 0)]],
                 [0, 0, 0, 0, 0])))"
    by (simp add: demo_eval store_five_broken_def)
  then show ?thesis
    unfolding get_predictions_def by (simp add: demo_not_extended demo_concatenate)
qed

lemma store_five_broken_rnn:
  "get_predictions demo_ext demo_cfg store_five_broken ''log_returns'' ''RNN'' ''BTC'' ''1d''
     True
     = (store_five_broken, Inl FileNotFoundError)"
  by (simp add: get_predictions_def demo_eval store_five_broken_def)

section \<open>Missing artifacts\<close>

text \<open>
  C2, as the code has it.  The loop tests the existence of the prediction file only.  For a
  fold index \<open>k\<close> below 5: if the prediction file of fold \<open>k\<close> is missing and the folds
  before it load, \<^verbatim>\<open>get_predictions\<close> prints the warning and returns the sentinel; and if the
  prediction file or the test file of fold \<open>k\<close> is missing, it never returns folds, neither
  all nor some of them.
\<close>

theorem get_predictions_missing_artifact:
  assumes "k < 5"
  shows
    "(files w (pred_path (file_loc cfg model model_name coin time_frame) k) = None \<and>
      (\<forall>j<k. \<exists>f. read_fold ext w (select_value_cols cfg model)
                (pred_path (file_loc cfg model model_name coin time_frame) j)
                (test_path (file_loc cfg model model_name coin time_frame) j) = Inr f)
      \<longrightarrow> get_predictions ext cfg w model model_name coin time_frame concatenated
            = (print w (''Warning the following file does not exist: ''
                 @ pred_path (file_loc cfg model model_name coin time_frame) k), Inr None))
     \<and> (files w (pred_path (file_loc cfg model model_name coin time_frame) k) = None \<or>
        files w (test_path (file_loc cfg model model_name coin time_frame) k) = None
      \<longrightarrow> (\<forall>b. snd (get_predictions ext cfg w model model_name coin time_frame concatenated)
                 \<noteq> Inr (Some b)))"
proof (intro conjI impI)
  assume a: "files w (pred_path (file_loc cfg model model_name coin time_frame) k) = None \<and>
      (\<forall>j<k. \<exists>f. read_fold ext w (select_value_cols cfg model)
                (pred_path (file_loc cfg model model_name coin time_frame) j)
                (test_path (file_loc cfg model model_name coin time_frame) j) = Inr f)"
  then have "\<forall>j \<in> set [0..<k]. \<exists>f. read_fold ext w (select_value_cols cfg model)
                (pred_path (file_loc cfg model model_name coin time_frame) j)
                (test_path (file_loc cfg model model_name coin time_frame) j) = Inr f"
    by simp
  with a have "periods_loop ext cfg w model model_name coin time_frame
       (select_value_cols cfg model) ([0..<k] @ k # [Suc k..<5]) [] [] []
     = (print w (''Warning the following file does not exist: ''
                   @ pred_path (file_loc cfg model model_name coin time_frame) k), Inr None)"
    by (intro periods_loop_first_missing) auto
  then show "get_predictions ext cfg w model model_name coin time_frame concatenated
            = (print w (''Warning the following file does not exist: ''
                 @ pred_path (file_loc cfg model model_name coin time_frame) k), Inr None)"
    using periods_split [OF assms] by (simp add: get_predictions_def)
next
  assume "files w (pred_path (file_loc cfg model model_name coin time_frame) k) = None \<or>
        files w (test_path (file_loc cfg model model_name coin time_frame) k) = None"
  then show "\<forall>b. snd (get_predictions ext cfg w model model_name coin time_frame concatenated)
                 \<noteq> Inr (Some b)"
    using get_predictions_loaded_files [OF _ assms] by blast
qed

theorem get_predictions_missing_artifact_witness:
  "read_fold demo_ext store_fold0 (select_value_cols demo_cfg ''log_returns'')
     (pred_path (file_loc demo_cfg ''log_returns'' ''ARIMA'' ''BTC'' ''1d'') 0)
     (test_path (file_loc demo_cfg ''log_returns'' ''ARIMA'' ''BTC'' ''1d'') 0)
     = Inr ([(1, 1), (2, 0)], [(1, 1), (2, 0)], 0)
   \<and> files store_fold0 (pred_path (file_loc demo_cfg ''log_returns'' ''ARIMA'' ''BTC'' ''1d'') 1)
       = None
   \<and> get_predictions demo_ext demo_cfg store_fold0 ''log_returns'' ''ARIMA'' ''BTC'' ''1d'' True
       = (print store_fold0 (''Warning the following file does not exist: ''
            @ ''out/log_returns/ARIMA/BTC/1d/pred_1.csv''), Inr None)"
proof -
  have rf: "read_fold demo_ext store_fold0 (select_value_cols demo_cfg ''log_returns'')
     (pred_path (file_loc demo_cfg ''log_returns'' ''ARIMA'' ''BTC'' ''1d'') 0)
     (test_path (file_loc demo_cfg ''log_returns'' ''ARIMA'' ''BTC'' ''1d'') 0)
     = Inr ([(1, 1), (2, 0)], [(1, 1), (2, 0)], 0)"
    by (simp add: demo_paths demo_value_cols read_fold_def store_fold0_def demo_ext_def
        demo_from_dataframe_def regular_index_def demo_rmse_def log_pred_def log_test_def)
  have miss: "files store_fold0
      (pred_path (file_loc demo_cfg ''log_returns'' ''ARIMA'' ''BTC'' ''1d'') 1) = None"
    unfolding demo_paths by (simp add: store_fold0_def)
  have k: "(1::nat) < 5" by simp
  from rf have prior: "\<forall>j<1. \<exists>f. read_fold demo_ext store_fold0
         (select_value_cols demo_cfg ''log_returns'')
         (pred_path (file_loc demo_cfg ''log_returns'' ''ARIMA'' ''BTC'' ''1d'') j)
         (test_path (file_loc demo_cfg ''log_returns'' ''ARIMA'' ''BTC'' ''1d'') j) = Inr f"
    by simp
  from get_predictions_missing_artifact [OF k, of store_fold0 demo_cfg "''log_returns''"
      "''ARIMA''" "''BTC''" "''1d''" demo_ext True] miss prior
  have "get_predictions demo_ext demo_cfg store_fold0 ''log_returns'' ''ARIMA'' ''BTC'' ''1d'' True
       = (print store_fold0 (''Warning the following file does not exist: ''
            @ pred_path (file_loc demo_cfg ''log_returns'' ''ARIMA'' ''BTC'' ''1d'') 1), Inr None)"
    by blast
  with rf miss show ?thesis unfolding demo_paths by simp
qed

text \<open>
  The specification's wording fails for a missing test file: with a two-row prediction of
  fold 0 stored and its test file absent, the prediction is parsed and the call then raises
  \<^verbatim>\<open>FileNotFoundError\<close> instead of returning the sentinel.
\<close>

theorem get_predictions_missing_test_counterexample:
  "files store_pred0_only
     (pred_path (file_loc demo_cfg ''log_returns'' ''ARIMA'' ''BTC'' ''1d'') 0)
     = Some (log_pred [(1, 1), (2, 0)])
   \<and> from_dataframe demo_ext (log_pred [(1, 1), (2, 0)]) ''time'' [''log returns'']
     = Inr [(1, 1), (2, 0)]
   \<and> files store_pred0_only
     (test_path (file_loc demo_cfg ''log_returns'' ''ARIMA'' ''BTC'' ''1d'') 0) = None
   \<and> snd (get_predictions demo_ext demo_cfg store_pred0_only
            ''log_returns'' ''ARIMA'' ''BTC'' ''1d'' True) = Inl FileNotFoundError"
  by (simp add: get_predictions_def demo_paths demo_value_cols store_pred0_only_def
      path_exists_def read_fold_def demo_ext_def demo_from_dataframe_def regular_index_def
      log_pred_def Let_def)

section \<open>Unsupported conversions\<close>

text \<open>
  C3.  For the raw family, which has no price reconstruction, lines 177-185 select the
  branch that prints the message and returns, writing nothing.  The function never gets
  there: its call of \<^verbatim>\<open>get_predictions\<close> raises \<^verbatim>\<open>TypeError\<close> first.
\<close>

theorem log_returns_to_price_unsupported_family:
  "log_returns_to_price demo_ext demo_cfg store_fold0 ''raw'' ''ARIMA'' ''BTC'' ''1d''
     = (store_fold0, Inl TypeError)
   \<and> transformed_model demo_cfg ''raw'' = None
   \<and> convert_loaded demo_ext demo_cfg store_fold0 None ''raw'' ''ARIMA'' ''BTC'' ''1d''
     = (print store_fold0 ''This model cannot be converted to price.'', Inr ())"
proof -
  have tm: "transformed_model demo_cfg ''raw'' = None"
    by (simp add: transformed_model_def demo_cfg_def)
  then show ?thesis
    by (simp add: log_returns_to_price_def call_unexpected_keyword convert_loaded_def)
qed

section \<open>Value columns\<close>

text \<open>
  C6, as the code has it.  The families of the first list select the value column
  \<^verbatim>\<open>log returns\<close>, and whenever one of them is loaded, the prediction file and the test
  file of every fold have been parsed with that column (time columns \<^verbatim>\<open>time\<close> and
  \<^verbatim>\<open>date\<close>), the returned RMSEs are those of the parsed pairs and a returned list of
  predictions holds the parsed predictions.  The same holds for the families of the second
  list (when their names are not in the first) with the value column \<^verbatim>\<open>close\<close>.  For any
  other family \<^verbatim>\<open>value_cols\<close> stays unbound and no load succeeds: the call returns the
  sentinel when the prediction file of fold 0 is missing and raises \<^verbatim>\<open>UnboundLocalError\<close>
  when it exists.
\<close>

theorem get_predictions_value_column:
  "(model \<in> set [log_returns_model cfg, extended_model cfg, scaled_model cfg,
                  scaled_to_log_model cfg, raw_to_log_model cfg]
      \<longrightarrow> select_value_cols cfg model = Some [''log returns''] \<and>
          (\<forall>p t rs i.
             snd (get_predictions ext cfg w model model_name coin time_frame concatenated)
               = Inr (Some (p, t, rs)) \<and> i < 5
             \<longrightarrow> (\<exists>pc tc pred test.
                   files w (pred_path (file_loc cfg model model_name coin time_frame) i)
                     = Some pc
                 \<and> files w (test_path (file_loc cfg model model_name coin time_frame) i)
                     = Some tc
                 \<and> from_dataframe ext pc ''time'' [''log returns''] = Inr pred
                 \<and> from_dataframe ext tc ''date'' [''log returns''] = Inr test
                 \<and> rmse ext test pred = Inr (rs ! i)
                 \<and> (\<forall>qs. p = Many qs \<longrightarrow> qs ! i = pred))))
   \<and> (model \<in> set [raw_model cfg, extended_to_raw_model cfg, scaled_to_raw_model cfg] \<and>
      model \<notin> set [log_returns_model cfg, extended_model cfg, scaled_model cfg,
                  scaled_to_log_model cfg, raw_to_log_model cfg]
      \<longrightarrow> select_value_cols cfg model = Some [''close''] \<and>
          (\<forall>p t rs i.
             snd (get_predictions ext cfg w model model_name coin time_frame concatenated)
               = Inr (Some (p, t, rs)) \<and> i < 5
             \<longrightarrow> (\<exists>pc tc pred test.
                   files w (pred_path (file_loc cfg model model_name coin time_frame) i)
                     = Some pc
                 \<and> files w (test_path (file_loc cfg model model_name coin time_frame) i)
                     = Some tc
                 \<and> from_dataframe ext pc ''time'' [''close''] = Inr pred
                 \<and> from_dataframe ext tc ''date'' [''close''] = Inr test
                 \<and> rmse ext test pred = Inr (rs ! i)
                 \<and> (\<forall>qs. p = Many qs \<longrightarrow> qs ! i = pred))))
   \<and> (model \<notin> set [log_returns_model cfg, extended_model cfg, scaled_model cfg,
                  scaled_to_log_model cfg, raw_to_log_model cfg] \<and>
      model \<notin> set [raw_model cfg, extended_to_raw_model cfg, scaled_to_raw_model cfg]
      \<longrightarrow> select_value_cols cfg model = None \<and>
          get_predictions ext cfg w model model_name coin time_frame concatenated
            = (if files w (pred_path (file_loc cfg model model_name coin time_frame) 0) = None
               then (print w (''Warning the following file does not exist: ''
                       @ pred_path (file_loc cfg model model_name coin time_frame) 0), Inr None)
               else (w, Inl UnboundLocalError)))"
proof (intro conjI impI)
  assume "model \<in> set [log_returns_model cfg, extended_model cfg, scaled_model cfg,
                  scaled_to_log_model cfg, raw_to_log_model cfg]"
  then show sel: "select_value_cols cfg model = Some [''log returns'']"
    by (simp add: select_value_cols_def)
  show "\<forall>p t rs i.
             snd (get_predictions ext cfg w model model_name coin time_frame concatenated)
               = Inr (Some (p, t, rs)) \<and> i < 5
             \<longrightarrow> (\<exists>pc tc pred test.
                   files w (pred_path (file_loc cfg model model_name coin time_frame) i)
                     = Some pc
                 \<and> files w (test_path (file_loc cfg model model_name coin time_frame) i)
                     = Some tc
                 \<and> from_dataframe ext pc ''time'' [''log returns''] = Inr pred
                 \<and> from_dataframe ext tc ''date'' [''log returns''] = Inr test
                 \<and> rmse ext test pred = Inr (rs ! i)
                 \<and> (\<forall>qs. p = Many qs \<longrightarrow> qs ! i = pred))"
  proof (intro allI impI, elim conjE)
    fix p t rs and i :: nat
    assume "snd (get_predictions ext cfg w model model_name coin time_frame concatenated)
               = Inr (Some (p, t, rs))" and "i < 5"
    then show "\<exists>pc tc pred test.
                   files w (pred_path (file_loc cfg model model_name coin time_frame) i)
                     = Some pc
                 \<and> files w (test_path (file_loc cfg model model_name coin time_frame) i)
                     = Some tc
                 \<and> from_dataframe ext pc ''time'' [''log returns''] = Inr pred
                 \<and> from_dataframe ext tc ''date'' [''log returns''] = Inr test
                 \<and> rmse ext test pred = Inr (rs ! i)
                 \<and> (\<forall>qs. p = Many qs \<longrightarrow> qs ! i = pred)"
      by (rule get_predictions_parsed [OF sel])
  qed
next
  assume "model \<in> set [raw_model cfg, extended_to_raw_model cfg, scaled_to_raw_model cfg] \<and>
      model \<notin> set [log_returns_model cfg, extended_model cfg, scaled_model cfg,
                  scaled_to_log_model cfg, raw_to_log_model cfg]"
  then show sel: "select_value_cols cfg model = Some [''close'']"
    by (simp add: select_value_cols_def)
  show "\<forall>p t rs i.
             snd (get_predictions ext cfg w model model_name coin time_frame concatenated)
               = Inr (Some (p, t, rs)) \<and> i < 5
             \<longrightarrow> (\<exists>pc tc pred test.
                   files w (pred_path (file_loc cfg model model_name coin time_frame) i)
                     = Some pc
                 \<and> files w (test_path (file_loc cfg model model_name coin time_frame) i)
                     = Some tc
                 \<and> from_dataframe ext pc ''time'' [''close''] = Inr pred
                 \<and> from_dataframe ext tc ''date'' [''close''] = Inr test
                 \<and> rmse ext test pred = Inr (rs ! i)
                 \<and> (\<forall>qs. p = Many qs \<longrightarrow> qs ! i = pred))"
  proof (intro allI impI, elim conjE)
    fix p t rs and i :: nat
    assume "snd (get_predictions ext cfg w model model_name coin time_frame concatenated)
               = Inr (Some (p, t, rs))" and "i < 5"
    then show "\<exists>pc tc pred test.
                   files w (pred_path (file_loc cfg model model_name coin time_frame) i)
                     = Some pc
                 \<and> files w (test_path (file_loc cfg model model_name coin time_frame) i)
                     = Some tc
                 \<and> from_dataframe ext pc ''time'' [''close''] = Inr pred
                 \<and> from_dataframe ext tc ''date'' [''close''] = Inr test
                 \<and> rmse ext test pred = Inr (rs ! i)
                 \<and> (\<forall>qs. p = Many qs \<longrightarrow> qs ! i = pred)"
      by (rule get_predictions_parsed [OF sel])
  qed
next
  assume other: "model \<notin> set [log_returns_model cfg, extended_model cfg, scaled_model cfg,
                  scaled_to_log_model cfg, raw_to_log_model cfg] \<and>
      model \<notin> set [raw_model cfg, extended_to_raw_model cfg, scaled_to_raw_model cfg]"
  then show none: "select_value_cols cfg model = None"
    by (simp add: select_value_cols_def)
  show "get_predictions ext cfg w model model_name coin time_frame concatenated
            = (if files w (pred_path (file_loc cfg model model_name coin time_frame) 0) = None
               then (print w (''Warning the following file does not exist: ''
                       @ pred_path (file_loc cfg model model_name coin time_frame) 0), Inr None)
               else (w, Inl UnboundLocalError))"
    unfolding get_predictions_def none periods_loop_unbound by simp
qed

theorem get_predictions_value_column_witness:
  "select_value_cols demo_cfg ''log_returns'' = Some [''log returns'']
   \<and> files store_five (pred_path (file_loc demo_cfg ''log_returns'' ''ARIMA'' ''BTC'' ''1d'') 0)
       = Some (log_pred [(1, 1), (2, 0)])
   \<and> from_dataframe demo_ext (log_pred [(1, 1), (2, 0)]) ''time'' [''log returns'']
       = Inr [(1, 1), (2, 0)]
   \<and> files store_five (test_path (file_loc demo_cfg ''log_returns'' ''ARIMA'' ''BTC'' ''1d'') 0)
       = Some (log_test [(1, 1), (2, 0)])
   \<and> (\<exists>test. from_dataframe demo_ext (log_test [(1, 1), (2, 0)]) ''date'' [''log returns'']
               = Inr test
            \<and> rmse demo_ext test [(1, 1), (2, 0)] = Inr 0)
   \<and> select_value_cols demo_cfg ''raw'' = Some [''close'']
   \<and> files store_raw (pred_path (file_loc demo_cfg ''raw'' ''ARIMA'' ''BTC'' ''1d'') 0)
       = Some (close_pred [(1, 101), (2, 100)])
   \<and> from_dataframe demo_ext (close_pred [(1, 101), (2, 100)]) ''time'' [''close'']
       = Inr [(1, 101), (2, 100)]
   \<and> select_value_cols demo_cfg ''bogus'' = None
   \<and> get_predictions demo_ext demo_cfg store_bogus ''bogus'' ''ARIMA'' ''BTC'' ''1d'' True
      = (store_bogus, Inl UnboundLocalError)"
proof -
  have a: "''log_returns'' \<in> set [log_returns_model demo_cfg, extended_model demo_cfg,
      scaled_model demo_cfg, scaled_to_log_model demo_cfg, raw_to_log_model demo_cfg]"
    by (simp add: demo_cfg_def)
  have b: "''raw'' \<in> set [raw_model demo_cfg, extended_to_raw_model demo_cfg,
        scaled_to_raw_model demo_cfg] \<and>
      ''raw'' \<notin> set [log_returns_model demo_cfg, extended_model demo_cfg,
      scaled_model demo_cfg, scaled_to_log_model demo_cfg, raw_to_log_model demo_cfg]"
    by (simp add: demo_cfg_def)
  have c: "''bogus'' \<notin> set [log_returns_model demo_cfg, extended_model demo_cfg,
      scaled_model demo_cfg, scaled_to_log_model demo_cfg, raw_to_log_model demo_cfg] \<and>
      ''bogus'' \<notin> set [raw_model demo_cfg, extended_to_raw_model demo_cfg,
        scaled_to_raw_model demo_cfg]"
    by (simp add: demo_cfg_def)
  have fp: "files store_five
      (pred_path (file_loc demo_cfg ''log_returns'' ''ARIMA'' ''BTC'' ''1d'') 0)
       = Some (log_pred [(1, 1), (2, 0)])"
    and ft: "files store_five
      (test_path (file_loc demo_cfg ''log_returns'' ''ARIMA'' ''BTC'' ''1d'') 0)
       = Some (log_test [(1, 1), (2, 0)])"
    unfolding demo_paths by (simp_all add: store_five_def)
  have rp: "files store_raw (pred_path (file_loc demo_cfg ''raw'' ''ARIMA'' ''BTC'' ''1d'') 0)
       = Some (close_pred [(1, 101), (2, 100)])"
    by (simp add: store_raw_def pred_path_def file_loc_def demo_cfg_def str_nat.simps
        digit_char_def)
  have p0: "pred_path (file_loc demo_cfg ''bogus'' ''ARIMA'' ''BTC'' ''1d'') 0
      = ''out/bogus/ARIMA/BTC/1d/pred_0.csv''"
    by (simp add: pred_path_def file_loc_def demo_cfg_def str_nat.simps digit_char_def)
  have five: "snd (get_predictions demo_ext demo_cfg store_five ''log_returns'' ''ARIMA''
        ''BTC'' ''1d'' False)
      = Inr (Some (Many [[(1, 1), (2, 0)], [(3, 2), (4, 0)], [(5, 3), (6, 0)], [(7, 4), (8, 0)],
                         [(9, 5), (10, 0)]],
                   Single [(1, 1), (2, 0)], [0, 0, 0, 0, 0])) \<and> (0::nat) < 5"
    by (simp add: store_five_per_fold)
  have raw: "snd (get_predictions demo_ext demo_cfg store_raw ''raw'' ''ARIMA''
        ''BTC'' ''1d'' False)
      = Inr (Some (Many [[(1, 101), (2, 100)], [(3, 102), (4, 100)], [(5, 103), (6, 100)],
                         [(7, 104), (8, 100)], [(9, 105), (10, 100)]],
                   Single [(1, 101), (2, 100)], [0, 0, 0, 0, 0])) \<and> (0::nat) < 5"
    by (simp add: store_raw_per_fold)
  from a five fp ft get_predictions_value_column [of "''log_returns''" demo_cfg demo_ext
      store_five "''ARIMA''" "''BTC''" "''1d''" False]
  have 1: "select_value_cols demo_cfg ''log_returns'' = Some [''log returns'']
    \<and> from_dataframe demo_ext (log_pred [(1, 1), (2, 0)]) ''time'' [''log returns'']
       = Inr [(1, 1), (2, 0)]
    \<and> (\<exists>test. from_dataframe demo_ext (log_test [(1, 1), (2, 0)]) ''date'' [''log returns'']
               = Inr test
            \<and> rmse demo_ext test [(1, 1), (2, 0)] = Inr 0)"
    by fastforce
  from b raw rp get_predictions_value_column [of "''raw''" demo_cfg demo_ext
      store_raw "''ARIMA''" "''BTC''" "''1d''" False]
  have 2: "select_value_cols demo_cfg ''raw'' = Some [''close'']
    \<and> from_dataframe demo_ext (close_pred [(1, 101), (2, 100)]) ''time'' [''close'']
       = Inr [(1, 101), (2, 100)]"
    by fastforce
  from c get_predictions_value_column [of "''bogus''" demo_cfg demo_ext store_bogus
      "''ARIMA''" "''BTC''" "''1d''" True]
  have 3: "select_value_cols demo_cfg ''bogus'' = None \<and>
    get_predictions demo_ext demo_cfg store_bogus ''bogus'' ''ARIMA'' ''BTC'' ''1d'' True
      = (store_bogus, Inl UnboundLocalError)"
    unfolding p0 by (simp add: store_bogus_def)
  from 1 2 3 fp ft rp show ?thesis by blast
qed

text \<open>
  The specification's wording fails where the family is unknown and nothing is stored for
  it: the
  call is no error, it returns the sentinel of a missing artifact.
\<close>

theorem get_predictions_unknown_family_counterexample:
  "select_value_cols demo_cfg ''bogus'' = None
   \<and> snd (get_predictions demo_ext demo_cfg store_five ''bogus'' ''ARIMA'' ''BTC'' ''1d'' True)
       = Inr None"
  by (simp add: get_predictions_def demo_eval store_five_def)

section \<open>Output shaping\<close>

text \<open>
  C5, as the code has it.  Let the loop have loaded the prediction series \<open>ps\<close>, the test
  series \<open>ts\<close> and the RMSEs \<open>rs\<close> of the five folds.  For the ML-ensemble family, and
  for any family when the caller asks for non-concatenated output, \<^verbatim>\<open>get_predictions\<close>
  returns the list \<open>ps\<close> and, as its test output, the one test series of fold 0.
  Otherwise it returns what \<^verbatim>\<open>concatenate\<close> makes of \<open>ps\<close> and of \<open>ts\<close>: whenever
  \<^verbatim>\<open>concatenate\<close> accepts them, one series each, with the values of the five folds in fold
  order, as long as the folds together, on the time index that starts with fold 0 and
  advances by its frequency.
\<close>

theorem get_predictions_output_shape:
  assumes "periods_loop ext cfg w model model_name coin time_frame
             (select_value_cols cfg model) [0, 1, 2, 3, 4] [] [] []
           = (w1, Inr (Some (ps, ts, rs)))"
  shows "length ps = 5 \<and> length ts = 5 \<and> length rs = 5
    \<and> (model = extended_model cfg \<or> \<not> concatenated
        \<longrightarrow> get_predictions ext cfg w model model_name coin time_frame concatenated
              = (w, Inr (Some (Many ps, Single (ts ! 0), rs))))
    \<and> (model \<noteq> extended_model cfg \<and> concatenated
        \<longrightarrow> get_predictions ext cfg w model model_name coin time_frame concatenated
              = (w, case concatenate ext ps of Inl e \<Rightarrow> Inl e
                    | Inr p \<Rightarrow> (case concatenate ext ts of Inl e \<Rightarrow> Inl e
                               | Inr t \<Rightarrow> Inr (Some (Single p, Single t, rs))))
            \<and> (\<forall>p. concatenate ext ps = Inr p
                 \<longrightarrow> map snd p = concat (map (map snd) ps)
                     \<and> length p = sum_list (map length ps)
                     \<and> (\<exists>st. start_time (ps ! 0) = Inr st
                           \<and> map fst p
                               = map (\<lambda>i. st + int i * freq ext (ps ! 0)) [0..<length p]))
            \<and> (\<forall>t. concatenate ext ts = Inr t
                 \<longrightarrow> map snd t = concat (map (map snd) ts)
                     \<and> length t = sum_list (map length ts)
                     \<and> (\<exists>st. start_time (ts ! 0) = Inr st
                           \<and> map fst t
                               = map (\<lambda>i. st + int i * freq ext (ts ! 0)) [0..<length t])))"
proof -
  from periods_loop_lengths [OF assms]
  have len: "length ps = 5" "length ts = 5" "length rs = 5" by simp_all
  note g = get_predictions_of_loop [OF assms, of concatenated]
  have "get_predictions ext cfg w model model_name coin time_frame concatenated
          = (w, Inr (Some (Many ps, Single (ts ! 0), rs)))"
    if "model = extended_model cfg \<or> \<not> concatenated"
    using that g by auto
  moreover have "get_predictions ext cfg w model model_name coin time_frame concatenated
              = (w, case concatenate ext ps of Inl e \<Rightarrow> Inl e
                    | Inr p \<Rightarrow> (case concatenate ext ts of Inl e \<Rightarrow> Inl e
                               | Inr t \<Rightarrow> Inr (Some (Single p, Single t, rs))))"
    if "model \<noteq> extended_model cfg \<and> concatenated"
    using that g by simp
  ultimately show ?thesis
    using len concatenate_values [of ext ps] concatenate_values [of ext ts] by blast
qed

theorem get_predictions_output_shape_witness:
  "get_predictions demo_ext demo_cfg store_five ''log_returns'' ''ARIMA'' ''BTC'' ''1d'' False
     = (store_five,
        Inr (Some (Many [[(1, 1), (2, 0)], [(3, 2), (4, 0)], [(5, 3), (6, 0)], [(7, 4), (8, 0)],
                         [(9, 5), (10, 0)]],
                   Single [(1, 1), (2, 0)], [0, 0, 0, 0, 0])))
   \<and> get_predictions demo_ext demo_cfg store_five ''log_returns'' ''ARIMA'' ''BTC'' ''1d'' True
     = (store_five,
        Inr (Some (Single [(1, 1), (2, 0), (3, 2), (4, 0), (5, 3), (6, 0), (7, 4), (8, 0),
                           (9, 5), (10, 0)],
                   Single [(1, 1), (2, 0), (3, 2), (4, 0), (5, 3), (6, 0), (7, 4), (8, 0),
                           (9, 5), (10, 0)],
                   [0, 0, 0, 0, 0])))
   \<and> map snd [(1::int, 1::real), (2, 0), (3, 2), (4, 0), (5, 3), (6, 0), (7, 4), (8, 0), (9, 5),
               (10, 0)]
     = concat (map (map snd) [[(1::int, 1::real), (2, 0)], [(3, 2), (4, 0)], [(5, 3), (6, 0)],
                               [(7, 4), (8, 0)], [(9, 5), (10, 0)]])"
proof -
  from get_predictions_output_shape [OF store_five_loop, of False]
  have 1: "get_predictions demo_ext demo_cfg store_five ''log_returns'' ''ARIMA'' ''BTC'' ''1d''
      False
     = (store_five,
        Inr (Some (Many [[(1, 1), (2, 0)], [(3, 2), (4, 0)], [(5, 3), (6, 0)], [(7, 4), (8, 0)],
                         [(9, 5), (10, 0)]],
                   Single [(1, 1), (2, 0)], [0, 0, 0, 0, 0])))"
    by simp
  from get_predictions_output_shape [OF store_five_loop, of True] demo_not_extended
  have 2: "get_predictions demo_ext demo_cfg store_five ''log_returns'' ''ARIMA'' ''BTC'' ''1d''
      True
     = (store_five,
        Inr (Some (Single [(1, 1), (2, 0), (3, 2), (4, 0), (5, 3), (6, 0), (7, 4), (8, 0),
                           (9, 5), (10, 0)],
                   Single [(1, 1), (2, 0), (3, 2), (4, 0), (5, 3), (6, 0), (7, 4), (8, 0),
                           (9, 5), (10, 0)],
                   [0, 0, 0, 0, 0])))"
    by (simp add: demo_concatenate)
  from get_predictions_output_shape [OF store_five_loop, of True] demo_not_extended
    demo_concatenate
  have 3: "map snd [(1::int, 1::real), (2, 0), (3, 2), (4, 0), (5, 3), (6, 0), (7, 4), (8, 0),
               (9, 5), (10, 0)]
     = concat (map (map snd) [[(1::int, 1::real), (2, 0)], [(3, 2), (4, 0)], [(5, 3), (6, 0)],
                               [(7, 4), (8, 0)], [(9, 5), (10, 0)]])"
    by blast
  from 1 2 3 show ?thesis by blast
qed

text \<open>
  The specification's wording fails for a non-concatenated load of a family other than the
  ML-ensemble: the test output is no list of five series, it is the test series of fold 0
  alone.
\<close>

theorem get_predictions_tests_counterexample:
  "''log_returns'' \<noteq> extended_model demo_cfg
   \<and> snd (get_predictions demo_ext demo_cfg store_five ''log_returns'' ''ARIMA'' ''BTC'' ''1d''
            False)
     = Inr (Some (Many [[(1, 1), (2, 0)], [(3, 2), (4, 0)], [(5, 3), (6, 0)], [(7, 4), (8, 0)],
                         [(9, 5), (10, 0)]],
                  Single [(1, 1), (2, 0)], [0, 0, 0, 0, 0]))"
  unfolding get_predictions_def store_five_loop by (simp add: demo_cfg_def)

section \<open>The catalog loop\<close>

lemma models_loop_foldl:
  assumes "files w = files w0"
    and "\<forall>m \<in> set models. \<forall>e. snd (get_predictions ext cfg w0 model m coin time_frame True) \<noteq> Inl e"
  shows "\<exists>w'. files w' = files w0 \<and>
     models_loop ext cfg w model coin time_frame models acc
       = (w', Inr (foldl (keep_loaded (\<lambda>m. snd (get_predictions ext cfg w0 model m coin time_frame True)))
                    acc models))"
  using assms
proof (induction models arbitrary: w acc)
  case Nil
  then show ?case by simp
next
  case (Cons m models)
  obtain w1 r where g: "get_predictions ext cfg w model m coin time_frame True = (w1, r)"
    by (cases "get_predictions ext cfg w model m coin time_frame True")
  with get_predictions_files [of ext cfg w model m coin time_frame True] Cons.prems(1)
  have f1: "files w1 = files w0" by simp
  from g get_predictions_files_cong [OF Cons.prems(1), of ext cfg model m coin time_frame True]
  have r: "snd (get_predictions ext cfg w0 model m coin time_frame True) = r" by simp
  from Cons.prems(2) have rest: "\<forall>m \<in> set models. \<forall>e.
      snd (get_predictions ext cfg w0 model m coin time_frame True) \<noteq> Inl e" by simp
  from Cons.prems(2) r have noerr: "\<forall>e. r \<noteq> Inl e" by auto
  show ?case
  proof (cases r)
    case (Inl e)
    with noerr show ?thesis by simp
  next
    case (Inr o1)
    show ?thesis
    proof (cases o1)
      case None
      with Inr g r Cons.IH [OF f1 rest, of acc] show ?thesis
        by (simp add: call_by_model_name keep_loaded_def)
    next
      case (Some b)
      with Inr g r Cons.IH [OF f1 rest, of "AList.update m b acc"] show ?thesis
        by (simp add: call_by_model_name keep_loaded_def)
    qed
  qed
qed

lemma set_update_subset: "p \<in> set (AList.update k v al) \<Longrightarrow> p = (k, v) \<or> p \<in> set al"
  by (induction al) (auto split: if_splits)

lemma keep_loaded_values:
  assumes "\<forall>p \<in> set acc. G (fst p) = Inr (Some (snd p))"
  shows "\<forall>p \<in> set (foldl (keep_loaded G) acc ms). G (fst p) = Inr (Some (snd p))"
  using assms
proof (induction ms arbitrary: acc)
  case Nil
  then show ?case by simp
next
  case (Cons m ms)
  have "\<forall>p \<in> set (keep_loaded G acc m). G (fst p) = Inr (Some (snd p))"
    using Cons.prems set_update_subset
    by (fastforce simp: keep_loaded_def split: sum.splits option.splits)
  from Cons.IH [OF this] show ?case by simp
qed

lemma update_key_set: "fst ` set (AList.update k v al) = insert k (fst ` set al)"
  by (induction al) auto

lemma keep_loaded_keys:
  "set (map fst (foldl (keep_loaded G) acc ms))
     = set (map fst acc) \<union> {m \<in> set ms. is_loaded (G m)}"
proof (induction ms arbitrary: acc)
  case Nil
  then show ?case by simp
next
  case (Cons m ms)
  have "set (map fst (keep_loaded G acc m))
      = set (map fst acc) \<union> (if is_loaded (G m) then {m} else {})"
    by (simp add: keep_loaded_def is_loaded_def update_key_set split: sum.splits option.splits)
  with Cons.IH [of "keep_loaded G acc m"] show ?case by auto
qed

lemma keep_loaded_order:
  assumes "distinct ms" and "set ms \<inter> set (map fst acc) = {}"
  shows "map fst (foldl (keep_loaded G) acc ms) = map fst acc @ filter (\<lambda>m. is_loaded (G m)) ms"
  using assms
proof (induction ms arbitrary: acc)
  case Nil
  then show ?case by simp
next
  case (Cons m ms)
  from Cons.prems have m: "m \<notin> set (map fst acc)" by auto
  then have step: "map fst (keep_loaded G acc m)
      = map fst acc @ (if is_loaded (G m) then [m] else [])"
    by (auto simp: keep_loaded_def is_loaded_def update_keys split: sum.splits option.splits)
  with Cons.prems have "set ms \<inter> set (map fst (keep_loaded G acc m)) = {}"
    by auto
  with Cons.IH [of "keep_loaded G acc m"] Cons.prems(1) step show ?case by simp
qed

lemma frame_of_dict_rmses:
  assumes "\<forall>c \<in> set cols. length (snd c) = (5::nat)"
  shows "frame_of_dict cols = Inr cols"
proof (cases cols)
  case Nil
  then show ?thesis by (simp add: frame_of_dict_def)
next
  case (Cons c cs)
  with assms have "\<forall>x \<in> set cols. length (snd x) = length (snd (hd cols))" by simp
  then show ?thesis by (simp add: frame_of_dict_def list_all_iff)
qed

lemma models_loop_raises:
  assumes "files w = files w0"
    and "\<exists>m \<in> set models. \<exists>e.
           snd (get_predictions ext cfg w0 model m coin time_frame True) = Inl e"
  shows "\<exists>w' e. files w' = files w0 \<and>
     models_loop ext cfg w model coin time_frame models acc = (w', Inl e)"
  using assms
proof (induction models arbitrary: w acc)
  case Nil
  then show ?case by simp
next
  case (Cons m models)
  obtain w1 r where g: "get_predictions ext cfg w model m coin time_frame True = (w1, r)"
    by (cases "get_predictions ext cfg w model m coin time_frame True")
  with get_predictions_files [of ext cfg w model m coin time_frame True] Cons.prems(1)
  have f1: "files w1 = files w0" by simp
  from g get_predictions_files_cong [OF Cons.prems(1), of ext cfg model m coin time_frame True]
  have r: "snd (get_predictions ext cfg w0 model m coin time_frame True) = r" by simp
  show ?case
  proof (cases r)
    case (Inl e)
    with g f1 show ?thesis by (simp add: call_by_model_name)
  next
    case (Inr o1)
    with r Cons.prems(2) have rest: "\<exists>m \<in> set models. \<exists>e.
        snd (get_predictions ext cfg w0 model m coin time_frame True) = Inl e"
      by auto
    show ?thesis
    proof (cases o1)
      case None
      with Inr g Cons.IH [OF f1 rest, of acc] show ?thesis
        by (simp add: call_by_model_name)
    next
      case (Some b)
      with Inr g Cons.IH [OF f1 rest, of "AList.update m b acc"] show ?thesis
        by (simp add: call_by_model_name)
    qed
  qed
qed

lemma all_model_predictions_returns:
  assumes "models = (if model = extended_model cfg then ml_models cfg else all_models cfg)"
    and "\<forall>m \<in> set models. \<forall>e.
           snd (get_predictions ext cfg w model m coin time_frame True) \<noteq> Inl e"
  shows "\<exists>w' d t. all_model_predictions ext cfg w model coin time_frame = (w', Inr (d, t))
     \<and> files w' = files w
     \<and> set (map fst d)
         = {m \<in> set models.
              is_loaded (snd (get_predictions ext cfg w model m coin time_frame True))}
     \<and> (\<forall>p \<in> set d.
          snd (get_predictions ext cfg w model (fst p) coin time_frame True) = Inr (Some (snd p)))
     \<and> t = map (\<lambda>(m, (_, _, r)). (m, r)) d
     \<and> (distinct models \<longrightarrow>
          map fst d = filter (\<lambda>m. is_loaded
                          (snd (get_predictions ext cfg w model m coin time_frame True))) models
          \<and> length d + length (filter (\<lambda>m.
                 snd (get_predictions ext cfg w model m coin time_frame True) = Inr None) models)
              = length models)"
proof -
  define G where "G = (\<lambda>m. snd (get_predictions ext cfg w model m coin time_frame True))"
  define d where "d = foldl (keep_loaded G) [] models"
  define t where "t = map (\<lambda>(m, (_, _, r)). (m, r)) d"
  from models_loop_foldl [OF refl assms(2), of "[]"] obtain w' where
    w': "files w' = files w" and
    loop: "models_loop ext cfg w model coin time_frame models [] = (w', Inr d)"
    unfolding d_def G_def by blast
  have vals: "\<forall>p \<in> set d. G (fst p) = Inr (Some (snd p))"
    unfolding d_def by (rule keep_loaded_values) simp
  have "\<forall>c \<in> set t. length (snd c) = 5"
  proof
    fix c assume "c \<in> set t"
    then obtain m p te r where c: "c = (m, r)" and "(m, (p, te, r)) \<in> set d"
      unfolding t_def by auto
    with vals have "G m = Inr (Some (p, te, r))" by fastforce
    then have "length r = 5" unfolding G_def by (rule get_predictions_rmses)
    with c show "length (snd c) = 5" by simp
  qed
  then have "frame_of_dict t = Inr t" by (rule frame_of_dict_rmses)
  with loop have res: "all_model_predictions ext cfg w model coin time_frame = (w', Inr (d, t))"
    unfolding all_model_predictions_def t_def using assms(1) by simp
  have keys: "set (map fst d) = {m \<in> set models. is_loaded (G m)}"
    unfolding d_def using keep_loaded_keys [of G "[]" models] by simp
  have ord: "map fst d = filter (\<lambda>m. is_loaded (G m)) models
      \<and> length d + length (filter (\<lambda>m. G m = Inr None) models) = length models"
    if dist: "distinct models"
  proof -
    from dist have o: "map fst d = filter (\<lambda>m. is_loaded (G m)) models"
      unfolding d_def using keep_loaded_order [of models "[]" G] by simp
    have "filter (\<lambda>m. G m = Inr None) models = filter (\<lambda>m. \<not> is_loaded (G m)) models"
    proof (rule filter_cong [OF refl])
      fix m assume "m \<in> set models"
      with assms(2) have "\<forall>e. G m \<noteq> Inl e" unfolding G_def by blast
      then show "(G m = Inr None) = (\<not> is_loaded (G m))"
        by (cases "G m") (auto simp: is_loaded_def split: option.splits)
    qed
    moreover have "length d = length (filter (\<lambda>m. is_loaded (G m)) models)"
      using o by (metis length_map)
    ultimately show ?thesis
      using o sum_length_filter_compl [of "\<lambda>m. is_loaded (G m)" models] by simp
  qed
  from res w' keys vals ord show ?thesis
    unfolding G_def t_def by blast
qed

text \<open>
  C9, as the code has it.  Let \<open>models\<close> be the applicable catalog (the ML catalog for the
  ML-ensemble family, the full one otherwise).  If no load raises,
  \<^verbatim>\<open>all_model_predictions\<close> returns a dictionary \<open>d\<close> and a table \<open>t\<close>, leaving the store as
  it was: the keys of \<open>d\<close> are the models of the catalog whose load is no sentinel, each
  with what its load returned, and \<open>t\<close> has one column per key of \<open>d\<close>, holding its RMSE
  list.  For a catalog without repetition the keys are in catalog order, and the size of
  \<open>d\<close> is the size of the catalog less the number of models whose load returned the
  sentinel (7 for 10 models, 3 of them without artifacts).  If the load of some model of the
  catalog raises, the query raises as well and returns neither.
\<close>

theorem all_model_predictions_collects:
  assumes "models = (if model = extended_model cfg then ml_models cfg else all_models cfg)"
  shows "((\<forall>m \<in> set models. \<forall>e.
             snd (get_predictions ext cfg w model m coin time_frame True) \<noteq> Inl e)
      \<longrightarrow> (\<exists>w' d t. all_model_predictions ext cfg w model coin time_frame = (w', Inr (d, t))
           \<and> files w' = files w
           \<and> set (map fst d)
               = {m \<in> set models.
                    is_loaded (snd (get_predictions ext cfg w model m coin time_frame True))}
           \<and> (\<forall>p \<in> set d.
                snd (get_predictions ext cfg w model (fst p) coin time_frame True)
                  = Inr (Some (snd p)))
           \<and> t = map (\<lambda>(m, (_, _, r)). (m, r)) d
           \<and> (distinct models \<longrightarrow>
                map fst d = filter (\<lambda>m. is_loaded
                                (snd (get_predictions ext cfg w model m coin time_frame True)))
                              models
                \<and> length d + length (filter (\<lambda>m.
                       snd (get_predictions ext cfg w model m coin time_frame True) = Inr None)
                     models)
                    = length models)))
    \<and> ((\<exists>m \<in> set models. \<exists>e.
             snd (get_predictions ext cfg w model m coin time_frame True) = Inl e)
      \<longrightarrow> (\<exists>w' e. all_model_predictions ext cfg w model coin time_frame = (w', Inl e)
                  \<and> files w' = files w))"
proof (intro conjI impI)
  assume "\<forall>m \<in> set models. \<forall>e.
             snd (get_predictions ext cfg w model m coin time_frame True) \<noteq> Inl e"
  from all_model_predictions_returns [OF assms this]
  show "\<exists>w' d t. all_model_predictions ext cfg w model coin time_frame = (w', Inr (d, t))
           \<and> files w' = files w
           \<and> set (map fst d)
               = {m \<in> set models.
                    is_loaded (snd (get_predictions ext cfg w model m coin time_frame True))}
           \<and> (\<forall>p \<in> set d.
                snd (get_predictions ext cfg w model (fst p) coin time_frame True)
                  = Inr (Some (snd p)))
           \<and> t = map (\<lambda>(m, (_, _, r)). (m, r)) d
           \<and> (distinct models \<longrightarrow>
                map fst d = filter (\<lambda>m. is_loaded
                                (snd (get_predictions ext cfg w model m coin time_frame True)))
                              models
                \<and> length d + length (filter (\<lambda>m.
                       snd (get_predictions ext cfg w model m coin time_frame True) = Inr None)
                     models)
                    = length models)" .
next
  assume "\<exists>m \<in> set models. \<exists>e.
             snd (get_predictions ext cfg w model m coin time_frame True) = Inl e"
  from models_loop_raises [OF refl this, of "[]"] obtain w' e where
    "files w' = files w" "models_loop ext cfg w model coin time_frame models [] = (w', Inl e)"
    by blast
  then show "\<exists>w' e. all_model_predictions ext cfg w model coin time_frame = (w', Inl e)
                  \<and> files w' = files w"
    unfolding all_model_predictions_def using assms by simp
qed

theorem all_model_predictions_collects_witness:
  "(\<exists>w' d t. all_model_predictions demo_ext demo_cfg store_five ''log_returns'' ''BTC'' ''1d''
       = (w', Inr (d, t))
     \<and> map fst d = [''ARIMA''] \<and> map fst t = [''ARIMA''] \<and> length d + 2 = 3)
   \<and> (\<exists>w' e. all_model_predictions demo_ext demo_cfg store_five_broken ''log_returns'' ''BTC''
                 ''1d'' = (w', Inl e))"
proof -
  have models: "[''ARIMA'', ''RNN'', ''XGB'']
      = (if ''log_returns'' = extended_model demo_cfg then ml_models demo_cfg
         else all_models demo_cfg)"
    by (simp add: demo_cfg_def)
  have noerr: "\<forall>m \<in> set [''ARIMA'', ''RNN'', ''XGB'']. \<forall>e.
      snd (get_predictions demo_ext demo_cfg store_five ''log_returns'' m ''BTC'' ''1d'' True)
        \<noteq> Inl e"
    using store_five_arima store_five_others by simp
  have err: "\<exists>m \<in> set [''ARIMA'', ''RNN'', ''XGB'']. \<exists>e.
      snd (get_predictions demo_ext demo_cfg store_five_broken ''log_returns'' m ''BTC'' ''1d''
             True) = Inl e"
    using store_five_broken_rnn by simp
  have dist: "distinct [''ARIMA'', ''RNN'', ''XGB'']" by simp
  from all_model_predictions_collects [OF models, of demo_ext store_five "''BTC''" "''1d''"]
    noerr dist
  obtain w' d t where
    res: "all_model_predictions demo_ext demo_cfg store_five ''log_returns'' ''BTC'' ''1d''
       = (w', Inr (d, t))" and
    t: "t = map (\<lambda>(m, (_, _, r)). (m, r)) d" and
    keys: "map fst d = filter (\<lambda>m. is_loaded
         (snd (get_predictions demo_ext demo_cfg store_five ''log_returns'' m ''BTC'' ''1d''
                 True))) [''ARIMA'', ''RNN'', ''XGB'']"
    by blast
  from keys have k: "map fst d = [''ARIMA'']"
    using store_five_arima store_five_others by (simp add: is_loaded_def)
  then have "length d = 1" by (metis length_map length_Cons list.size(3) One_nat_def)
  moreover from t k have "map fst t = [''ARIMA'']"
    by (simp add: case_prod_unfold comp_def)
  ultimately have 1: "\<exists>w' d t.
      all_model_predictions demo_ext demo_cfg store_five ''log_returns'' ''BTC'' ''1d''
       = (w', Inr (d, t))
     \<and> map fst d = [''ARIMA''] \<and> map fst t = [''ARIMA''] \<and> length d + 2 = 3"
    using res k by auto
  from all_model_predictions_collects [OF models, of demo_ext store_five_broken "''BTC''"
      "''1d''"] err
  have 2: "\<exists>w' e. all_model_predictions demo_ext demo_cfg store_five_broken ''log_returns''
      ''BTC'' ''1d'' = (w', Inl e)"
    by blast
  from 1 2 show ?thesis by blast
qed

text \<open>
  The specification's wording fails where a load raises: the loop has no handler, so with
  the prediction of fold 0 of the second model stored and its test file missing, the query
  returns no dictionary and no table, it raises \<^verbatim>\<open>FileNotFoundError\<close>.
\<close>

theorem all_model_predictions_raises_counterexample:
  "all_models demo_cfg = [''ARIMA'', ''RNN'', ''XGB'']
   \<and> snd (get_predictions demo_ext demo_cfg store_five_broken ''log_returns'' ''RNN'' ''BTC''
            ''1d'' True) = Inl FileNotFoundError
   \<and> snd (all_model_predictions demo_ext demo_cfg store_five_broken ''log_returns'' ''BTC''
            ''1d'') = Inl FileNotFoundError"
proof -
  have m: "all_models demo_cfg = [''ARIMA'', ''RNN'', ''XGB'']" by (simp add: demo_cfg_def)
  have "snd (all_model_predictions demo_ext demo_cfg store_five_broken ''log_returns'' ''BTC''
            ''1d'') = Inl FileNotFoundError"
    unfolding all_model_predictions_def
    by (simp add: demo_not_extended m call_by_model_name store_five_broken_arima
        store_five_broken_rnn)
  with m store_five_broken_rnn show ?thesis by simp
qed

section \<open>Concatenation of the folds\<close>

text \<open>
  C10, as the code has it.  Take a family other than the ML-ensemble and let the loop have
  loaded the prediction series \<open>ps\<close>, the test series \<open>ts\<close> and the RMSEs \<open>rs\<close> of the
  five folds.  If both lists are contiguous for \<^verbatim>\<open>concatenate\<close> (each fold starts one
  frequency step of fold 0 after the end of the fold before it) and the frequency of the
  predictions is positive, the concatenated load returns one prediction series: it is as
  long as the five folds together, holds their values in fold order, and its timestamps
  are strictly increasing throughout, so across every boundary.  If the prediction folds
  are not contiguous, the concatenated load raises \<^verbatim>\<open>ValueError\<close>.
\<close>

theorem get_predictions_concatenated_series:
  assumes "periods_loop ext cfg w model model_name coin time_frame
             (select_value_cols cfg model) [0, 1, 2, 3, 4] [] [] []
           = (w1, Inr (Some (ps, ts, rs)))"
    and "model \<noteq> extended_model cfg"
  shows "length ps = 5
    \<and> (consecutive_time_axes (freq ext (ps ! 0)) ps = Inr True \<and>
       consecutive_time_axes (freq ext (ts ! 0)) ts = Inr True \<and> 0 < freq ext (ps ! 0)
       \<longrightarrow> (\<exists>p t. get_predictions ext cfg w model model_name coin time_frame True
                    = (w, Inr (Some (Single p, Single t, rs)))
                \<and> length p = sum_list (map length ps)
                \<and> map snd p = concat (map (map snd) ps)
                \<and> sorted_wrt (<) (map fst p)))
    \<and> (consecutive_time_axes (freq ext (ps ! 0)) ps = Inr False
       \<longrightarrow> get_predictions ext cfg w model model_name coin time_frame True
             = (w, Inl ValueError))"
proof -
  from periods_loop_lengths [OF assms(1)] have len: "length ps = 5" "length ts = 5"
    by simp_all
  from get_predictions_of_loop [OF assms(1), of True] assms(2)
  have g: "get_predictions ext cfg w model model_name coin time_frame True
      = (w, case concatenate ext ps of Inl e \<Rightarrow> Inl e
            | Inr p \<Rightarrow> (case concatenate ext ts of Inl e \<Rightarrow> Inl e
                       | Inr t \<Rightarrow> Inr (Some (Single p, Single t, rs))))"
    by simp
  have ok: "\<exists>p t. get_predictions ext cfg w model model_name coin time_frame True
                    = (w, Inr (Some (Single p, Single t, rs)))
                \<and> length p = sum_list (map length ps)
                \<and> map snd p = concat (map (map snd) ps)
                \<and> sorted_wrt (<) (map fst p)"
    if c: "consecutive_time_axes (freq ext (ps ! 0)) ps = Inr True \<and>
       consecutive_time_axes (freq ext (ts ! 0)) ts = Inr True \<and> 0 < freq ext (ps ! 0)"
  proof -
    from c len concatenate_consecutive [of ps ext] obtain p where
      p: "concatenate ext ps = Inr p" by auto
    from c len concatenate_consecutive [of ts ext] obtain t where
      t: "concatenate ext ts = Inr t" by auto
    from concatenate_values [OF p] obtain st where
      v: "map snd p = concat (map (map snd) ps)" "length p = sum_list (map length ps)"
        "map fst p = map (\<lambda>i. st + int i * freq ext (ps ! 0)) [0..<length p]"
      by blast
    from c have "sorted_wrt (<) (map (\<lambda>i. st + int i * freq ext (ps ! 0)) [0..<length p])"
      by (intro rebuilt_sorted) simp
    with v(3) have "sorted_wrt (<) (map fst p)" by simp
    with g p t v show ?thesis by simp
  qed
  have bad: "get_predictions ext cfg w model model_name coin time_frame True
             = (w, Inl ValueError)"
    if c: "consecutive_time_axes (freq ext (ps ! 0)) ps = Inr False"
  proof -
    from len obtain a rest where "ps = a # rest" by (cases ps) auto
    with c have "concatenate ext ps = Inl ValueError"
      by (simp add: concatenate_def)
    with g show ?thesis by simp
  qed
  from len ok bad show ?thesis by blast
qed

theorem get_predictions_concatenated_series_witness:
  "get_predictions demo_ext demo_cfg store_five ''log_returns'' ''ARIMA'' ''BTC'' ''1d'' True
     = (store_five,
        Inr (Some (Single [(1, 1), (2, 0), (3, 2), (4, 0), (5, 3), (6, 0), (7, 4), (8, 0),
                           (9, 5), (10, 0)],
                   Single [(1, 1), (2, 0), (3, 2), (4, 0), (5, 3), (6, 0), (7, 4), (8, 0),
                           (9, 5), (10, 0)],
                   [0, 0, 0, 0, 0])))
   \<and> length [(1::int, 1::real), (2, 0), (3, 2), (4, 0), (5, 3), (6, 0), (7, 4), (8, 0), (9, 5),
              (10, 0)]
       = sum_list (map length [[(1::int, 1::real), (2, 0)], [(3, 2), (4, 0)], [(5, 3), (6, 0)],
                                [(7, 4), (8, 0)], [(9, 5), (10, 0)]])
   \<and> sorted_wrt (<) (map fst [(1::int, 1::real), (2, 0), (3, 2), (4, 0), (5, 3), (6, 0),
                               (7, 4), (8, 0), (9, 5), (10, 0)])
   \<and> get_predictions demo_ext demo_cfg store_gap ''log_returns'' ''ARIMA'' ''BTC'' ''1d'' True
     = (store_gap, Inl ValueError)"
proof -
  have c5: "consecutive_time_axes
      (freq demo_ext ([[(1, 1), (2, 0)], [(3, 2), (4, 0)], [(5, 3), (6, 0)], [(7, 4), (8, 0)],
                        [(9, 5), (10, 0)]] ! 0))
      [[(1, 1), (2, 0)], [(3, 2), (4, 0)], [(5, 3), (6, 0)], [(7, 4), (8, 0)],
       [(9, 5), (10, 0)]] = Inr True
    \<and> 0 < freq demo_ext ([[(1, 1), (2, 0)], [(3, 2), (4, 0)], [(5, 3), (6, 0)],
                            [(7, 4), (8, 0)], [(9, 5), (10, 0)]] ! 0)"
    by (simp add: demo_ext_def demo_freq_def start_time_def end_time_def)
  have cg: "consecutive_time_axes
      (freq demo_ext ([[(1, 1), (2, 0)], [(4, 2), (5, 0)], [(7, 3), (8, 0)], [(10, 4), (11, 0)],
                        [(13, 5), (14, 0)]] ! 0))
      [[(1, 1), (2, 0)], [(4, 2), (5, 0)], [(7, 3), (8, 0)], [(10, 4), (11, 0)],
       [(13, 5), (14, 0)]] = Inr False"
    by (simp add: demo_ext_def demo_freq_def start_time_def end_time_def)
  from get_predictions_concatenated_series [OF store_five_loop demo_not_extended] c5
  obtain p t where
    g: "get_predictions demo_ext demo_cfg store_five ''log_returns'' ''ARIMA'' ''BTC'' ''1d''
          True = (store_five, Inr (Some (Single p, Single t, [0, 0, 0, 0, 0])))" and
    l: "length p = sum_list (map length [[(1::int, 1::real), (2, 0)], [(3, 2), (4, 0)],
          [(5, 3), (6, 0)], [(7, 4), (8, 0)], [(9, 5), (10, 0)]])" and
    s: "sorted_wrt (<) (map fst p)"
    by blast
  from g store_five_arima have
    p: "p = [(1, 1), (2, 0), (3, 2), (4, 0), (5, 3), (6, 0), (7, 4), (8, 0), (9, 5), (10, 0)]"
    by simp
  from get_predictions_concatenated_series [OF store_gap_loop demo_not_extended] cg
  have "get_predictions demo_ext demo_cfg store_gap ''log_returns'' ''ARIMA'' ''BTC'' ''1d''
      True = (store_gap, Inl ValueError)"
    by blast
  with l s store_five_arima show ?thesis unfolding p by blast
qed

text \<open>
  The specification's wording fails for folds in chronological order that leave a gap: the
  five folds load one by one, but the concatenated load returns no series, it raises
  \<^verbatim>\<open>ValueError\<close>.
\<close>

theorem get_predictions_gap_counterexample:
  "chronological [[(1, 1), (2, 0)], [(4, 2), (5, 0)], [(7, 3), (8, 0)], [(10, 4), (11, 0)],
                   [(13, 5), (14, 0)]]
   \<and> get_predictions demo_ext demo_cfg store_gap ''log_returns'' ''ARIMA'' ''BTC'' ''1d'' False
     = (store_gap,
        Inr (Some (Many [[(1, 1), (2, 0)], [(4, 2), (5, 0)], [(7, 3), (8, 0)],
                         [(10, 4), (11, 0)], [(13, 5), (14, 0)]],
                   Single [(1, 1), (2, 0)], [0, 0, 0, 0, 0])))
   \<and> get_predictions demo_ext demo_cfg store_gap ''log_returns'' ''ARIMA'' ''BTC'' ''1d'' True
     = (store_gap, Inl ValueError)"
proof -
  have "chronological [[(1, 1), (2, 0)], [(4, 2), (5, 0)], [(7, 3), (8, 0)],
      [(10, 4), (11, 0)], [(13, 5), (14, 0)]]"
    by (simp add: strictly_increasing_def)
  moreover have "get_predictions demo_ext demo_cfg store_gap ''log_returns'' ''ARIMA'' ''BTC''
      ''1d'' False
     = (store_gap,
        Inr (Some (Many [[(1, 1), (2, 0)], [(4, 2), (5, 0)], [(7, 3), (8, 0)],
                         [(10, 4), (11, 0)], [(13, 5), (14, 0)]],
                   Single [(1, 1), (2, 0)], [0, 0, 0, 0, 0])))"
    unfolding get_predictions_def store_gap_loop by simp
  moreover have "get_predictions demo_ext demo_cfg store_gap ''log_returns'' ''ARIMA'' ''BTC''
      ''1d'' True = (store_gap, Inl ValueError)"
    unfolding get_predictions_def store_gap_loop
    by (simp add: demo_not_extended demo_concatenate_gap)
  ultimately show ?thesis by blast
qed

section \<open>Compounding the log returns\<close>

lemma compound_length: "length (compound close rs) = length close + length rs"
  by (induction rs arbitrary: close) auto

lemma compound_log_returns:
  "close \<noteq> [] \<Longrightarrow> last close = p0 \<Longrightarrow> 0 < p0 \<Longrightarrow> \<forall>p \<in> set ps. 0 < p \<Longrightarrow>
   compound close (log_returns_of p0 ps) = close @ ps"
proof (induction ps arbitrary: close p0)
  case Nil
  then show ?case by simp
next
  case (Cons p ps)
  from Cons.prems have pos: "0 < p" "0 < p / p0" by simp_all
  with Cons.prems have step: "last close * exp (ln (p / p0)) = p" by simp
  have "compound (close @ [p]) (log_returns_of p ps) = (close @ [p]) @ ps"
    using Cons.prems pos by (intro Cons.IH) simp_all
  with step show ?case by simp
qed

lemma length_log_returns_of: "length (log_returns_of p0 ps) = length ps"
  by (induction ps arbitrary: p0) auto

text \<open>
  C7.  Starting from the anchor \<open>p0 > 0\<close>, compounding the log returns of a series of
  positive prices gives back the anchor followed by these prices, so the prices themselves
  once the anchor is dropped; and for any forecast the compounded list has one value more
  than the forecast.  (Over the reals the reconstruction is exact.)
\<close>

theorem compound_round_trip:
  assumes "0 < p0" and "\<forall>p \<in> set ps. 0 < p"
  shows "compound [p0] (log_returns_of p0 ps) = p0 # ps
    \<and> drop 1 (compound [p0] (log_returns_of p0 ps)) = ps
    \<and> length (log_returns_of p0 ps) = length ps
    \<and> length (compound [p0] rs) = length rs + 1"
  using compound_log_returns [of "[p0]" p0 ps] assms
  by (simp add: compound_length length_log_returns_of)

theorem compound_round_trip_witness:
  "compound [100] (log_returns_of 100 [102, 101]) = [100, 102, 101]
   \<and> log_returns_of 100 [102, 101] = [ln (102 / 100), ln (101 / 102)]"
proof -
  have a: "(0::real) < 100" by simp
  have b: "\<forall>p \<in> set [102, 101::real]. 0 < p" by simp
  from compound_round_trip [OF a b] show ?thesis by simp
qed

section \<open>The price window of a fold\<close>

lemma get_loc_Inr:
  assumes "get_loc df t = Inr i"
  shows "i < length df \<and> fst (df ! i) = t"
proof -
  from assms have "filter (\<lambda>i. fst (df ! i) = t) [0..<length df] = [i]"
    by (auto simp: get_loc_def split: list.splits)
  then have "i \<in> set (filter (\<lambda>i. fst (df ! i) = t) [0..<length df])" by simp
  then show ?thesis by simp
qed

lemma iloc_slice_inner:
  "1 \<le> s \<Longrightarrow> e < length xs \<Longrightarrow> s \<le> length xs \<Longrightarrow>
   iloc_slice xs (int s - 1) (int e + 1) = take (e + 2 - s) (drop (s - 1) xs)"
  by (auto simp: iloc_slice_def norm_idx_def Let_def min_def nat_diff_distrib
      intro!: arg_cong2 [where f = take])

lemma iloc_slice_wrap:
  "e < length xs \<Longrightarrow> length (iloc_slice xs (int 0 - 1) (int e + 1)) \<le> 1"
  by (auto simp: iloc_slice_def norm_idx_def Let_def min_def)


lemma slice_prices_Inr:
  assumes "slice_prices price_df prediction = Inr sliced"
  obtains st et s e where
    "start_time prediction = Inr st" "end_time prediction = Inr et"
    "get_loc (price_rows price_df) st = Inr s" "get_loc (price_rows price_df) et = Inr e"
    "sliced = iloc_slice (price_rows price_df) (int s - 1) (int e + 1)"
  using assms by (auto simp: slice_prices_def Let_def split: sum.splits)

lemma convert_fold_Inr:
  assumes "convert_fold price_df prediction = Inr (close, test)"
  obtains sliced where
    "slice_prices price_df prediction = Inr sliced"
    "length sliced = length prediction + 1"
    "map fst (rows close) = drop 1 (map fst sliced)"
    "rows test = drop 1 sliced"
proof -
  from assms obtain sliced c0 cs where
    sl: "slice_prices price_df prediction = Inr sliced" and
    c0: "map snd sliced = c0 # cs" and
    len: "length (compound [c0] (map snd prediction)) = length (map fst sliced)" and
    close: "rows close = drop 1 (zip (map fst sliced) (compound [c0] (map snd prediction)))" and
    test: "rows test = drop 1 (zip (map fst sliced) (map snd sliced))"
    by (auto simp: convert_fold_def data_frame_def split: sum.splits list.splits if_splits)
  from len have l: "length sliced = length prediction + 1"
    by (simp add: compound_length)
  from close len have "map fst (rows close) = drop 1 (map fst sliced)"
    by (simp add: drop_map [symmetric] del: drop_map)
  moreover from test have "rows test = drop 1 sliced" by (simp add: zip_map_fst_snd)
  ultimately show ?thesis using sl l that by blast
qed

text \<open>
  C4, as the code has it.  Whenever the loop body produces its two frames for a fold, the
  forecast's start and end time sit at positions \<open>s\<close> and \<open>e\<close> of the price index
  with \<open>1 \<le> s \<le> e\<close>; the slice is the rows \<open>s - 1\<close> to \<open>e\<close>, from the row before the
  start to the row of the end time itself; and both outputs carry the timestamps of the
  rows \<open>s\<close> to \<open>e\<close>, the ground truth being these rows.
\<close>

theorem convert_fold_window:
  assumes "convert_fold price_df prediction = Inr (close, test)"
  shows "\<exists>st et s e. start_time prediction = Inr st \<and> end_time prediction = Inr et
    \<and> get_loc (price_rows price_df) st = Inr s \<and> get_loc (price_rows price_df) et = Inr e
    \<and> 1 \<le> s \<and> s \<le> e \<and> e < length (price_rows price_df)
    \<and> slice_prices price_df prediction
        = Inr (take (e + 2 - s) (drop (s - 1) (price_rows price_df)))
    \<and> rows test = take (e + 1 - s) (drop s (price_rows price_df))
    \<and> map fst (rows close) = map fst (take (e + 1 - s) (drop s (price_rows price_df)))"
proof -
  from assms obtain sliced where
    sl: "slice_prices price_df prediction = Inr sliced" and
    l: "length sliced = length prediction + 1" and
    c: "map fst (rows close) = drop 1 (map fst sliced)" and
    t: "rows test = drop 1 sliced"
    by (rule convert_fold_Inr)
  from sl obtain st et s e where
    st: "start_time prediction = Inr st" and et: "end_time prediction = Inr et" and
    s: "get_loc (price_rows price_df) st = Inr s" and
    e: "get_loc (price_rows price_df) et = Inr e" and
    sliced: "sliced = iloc_slice (price_rows price_df) (int s - 1) (int e + 1)"
    by (rule slice_prices_Inr)
  from st have "prediction \<noteq> []" by (auto simp: start_time_def)
  with l have l2: "2 \<le> length sliced" by (cases prediction) auto
  from s e have sn: "s < length (price_rows price_df)" and en: "e < length (price_rows price_df)"
    using get_loc_Inr by blast+
  have s1: "1 \<le> s"
  proof (rule ccontr)
    assume "\<not> 1 \<le> s"
    then have "s = 0" by simp
    with sliced iloc_slice_wrap [OF en] have "length sliced \<le> 1" by simp
    with l2 show False by simp
  qed
  with sn en sliced have sl2: "sliced = take (e + 2 - s) (drop (s - 1) (price_rows price_df))"
    by (simp add: iloc_slice_inner)
  with l2 have "2 \<le> e + 2 - s" by simp
  then have se: "s \<le> e" by arith
  from s1 have d: "drop 1 (drop (s - 1) (price_rows price_df)) = drop s (price_rows price_df)"
    by simp
  from se have m: "e + 2 - s - 1 = e + 1 - s" by simp
  have "drop 1 sliced = take (e + 1 - s) (drop s (price_rows price_df))"
    unfolding sl2 drop_take d m by (rule refl)
  with t c have "rows test = take (e + 1 - s) (drop s (price_rows price_df))"
    "map fst (rows close) = map fst (take (e + 1 - s) (drop s (price_rows price_df)))"
    by (simp_all add: drop_map)
  with st et s e s1 se en sl sl2 show ?thesis by blast
qed

lemma demo_locs:
  "get_loc (price_rows demo_prices) 1 = Inr 1" "get_loc (price_rows demo_prices) 2 = Inr 2"
  by (simp_all add: get_loc_def demo_prices_def upt_rec)

lemma demo_slice:
  "slice_prices demo_prices demo_forecast = Inr [(0, 100), (1, 102), (2, 101)]"
  by (simp add: slice_prices_def demo_forecast_def start_time_def end_time_def demo_locs)
     (simp add: iloc_slice_def norm_idx_def demo_prices_def)

lemma demo_convert_fold:
  "convert_fold demo_prices demo_forecast
     = Inr (\<lparr>time_col = ''time'', value_col = ''close'', rows = [(1, 102), (2, 101)]\<rparr>,
            \<lparr>time_col = ''date'', value_col = ''close'', rows = [(1, 102), (2, 101)]\<rparr>)"
  by (simp add: convert_fold_def demo_slice data_frame_def)
     (simp add: demo_forecast_def demo_prices_def)


theorem convert_fold_window_witness:
  "convert_fold demo_prices demo_forecast
     = Inr (\<lparr>time_col = ''time'', value_col = ''close'', rows = [(1, 102), (2, 101)]\<rparr>,
            \<lparr>time_col = ''date'', value_col = ''close'', rows = [(1, 102), (2, 101)]\<rparr>)
   \<and> get_loc (price_rows demo_prices) 1 = Inr 1 \<and> get_loc (price_rows demo_prices) 2 = Inr 2
   \<and> slice_prices demo_prices demo_forecast
       = Inr (take (2 + 2 - 1) (drop (1 - 1) (price_rows demo_prices)))
   \<and> [(1, 102), (2, 101)] = take (2 + 1 - 1) (drop 1 (price_rows demo_prices))"
proof -
  from convert_fold_window [OF demo_convert_fold] obtain st et s e where
    st: "start_time demo_forecast = Inr st" and et: "end_time demo_forecast = Inr et" and
    s: "get_loc (price_rows demo_prices) st = Inr s" and
    e: "get_loc (price_rows demo_prices) et = Inr e" and
    sl: "slice_prices demo_prices demo_forecast
        = Inr (take (e + 2 - s) (drop (s - 1) (price_rows demo_prices)))" and
    t: "[(1, 102), (2, 101)] = take (e + 1 - s) (drop s (price_rows demo_prices))"
    by auto
  from st et have "st = 1" "et = 2"
    by (simp_all add: demo_forecast_def start_time_def end_time_def)
  with s e demo_locs have "s = 1" "e = 2" by simp_all
  with sl t demo_locs demo_convert_fold show ?thesis by simp
qed

text \<open>
  The specification's wording fails at the upper end of the slice: for the example forecast,
  which
  ends at position 2 of the price index, the slice ends with the row at position 2; the row
  after it, at position 3, is not in the slice.
\<close>

theorem slice_prices_upper_bound_counterexample:
  "end_time demo_forecast = Inr 2
   \<and> get_loc (price_rows demo_prices) 2 = Inr 2
   \<and> price_rows demo_prices ! (2 + 1) = (3, 105)
   \<and> slice_prices demo_prices demo_forecast = Inr [(0, 100), (1, 102), (2, 101)]"
  using demo_locs demo_slice
  by (simp add: demo_forecast_def end_time_def demo_prices_def)

section \<open>What the conversion writes\<close>

lemma convert_fold_rows:
  assumes "convert_fold price_df prediction = Inr (close, test)"
  shows "map fst (rows close) = map fst (rows test) \<and> length (rows test) = length prediction"
proof -
  from assms obtain sliced where
    l: "length sliced = length prediction + 1" and
    c: "map fst (rows close) = drop 1 (map fst sliced)" and
    t: "rows test = drop 1 sliced"
    by (rule convert_fold_Inr)
  from c t l show ?thesis by (simp add: drop_map)
qed

lemma digit_char_inj: "a < 10 \<Longrightarrow> b < 10 \<Longrightarrow> digit_char a = digit_char b \<Longrightarrow> a = b"
  unfolding digit_char_def
  by (subst (asm) nth_eq_iff_index_eq) simp_all

lemma str_nat_nonempty: "str_nat n \<noteq> []"
  by (subst str_nat.simps) simp

lemma str_nat_inj: "str_nat n = str_nat m \<Longrightarrow> n = m"
proof (induction n arbitrary: m rule: str_nat.induct)
  case (1 n)
  show ?case
  proof (cases "n < 10")
    case True
    then have n: "str_nat n = [digit_char n]" by (subst str_nat.simps) simp
    show ?thesis
    proof (cases "m < 10")
      case m: True
      then have "str_nat m = [digit_char m]" by (subst str_nat.simps) simp
      with n "1.prems" True m show ?thesis using digit_char_inj by simp
    next
      case False
      then have "str_nat m = str_nat (m div 10) @ [digit_char (m mod 10)]"
        by (subst str_nat.simps) simp
      with n "1.prems" str_nat_nonempty [of "m div 10"] show ?thesis by simp
    qed
  next
    case False
    then have n: "str_nat n = str_nat (n div 10) @ [digit_char (n mod 10)]"
      by (subst str_nat.simps) simp
    show ?thesis
    proof (cases "m < 10")
      case True
      then have "str_nat m = [digit_char m]" by (subst str_nat.simps) simp
      with n "1.prems" str_nat_nonempty [of "n div 10"] show ?thesis by simp
    next
      case m: False
      then have "str_nat m = str_nat (m div 10) @ [digit_char (m mod 10)]"
        by (subst str_nat.simps) simp
      with n "1.prems" have eq: "str_nat (n div 10) = str_nat (m div 10)"
        "digit_char (n mod 10) = digit_char (m mod 10)" by simp_all
      from "1.IH" [OF False eq(1)] have d: "n div 10 = m div 10" .
      from eq(2) have "n mod 10 = m mod 10" by (intro digit_char_inj) simp_all
      with d show ?thesis by (metis div_mult_mod_eq)
    qed
  qed
qed

lemma path_distinct:
  "pred_path loc i = pred_path loc j \<longleftrightarrow> i = j"
  "test_path loc i = test_path loc j \<longleftrightarrow> i = j"
  "pred_path loc i \<noteq> test_path loc j"
  "test_path loc i \<noteq> pred_path loc j"
  using str_nat_inj by (auto simp: pred_path_def test_path_def)

lemma folds_loop_keeps:
  assumes "folds_loop w price_df save_loc k preds = (w', r)" and "j < k"
  shows "files w' (pred_path save_loc j) = files w (pred_path save_loc j)
       \<and> files w' (test_path save_loc j) = files w (test_path save_loc j)"
  using assms
proof (induction preds arbitrary: w k)
  case Nil
  then show ?case by simp
next
  case (Cons p preds)
  show ?case
  proof (cases "convert_fold price_df p")
    case (Inl e)
    with Cons.prems show ?thesis by simp
  next
    case (Inr ct)
    obtain c t where ct: "ct = (c, t)" by (cases ct)
    let ?w1 = "to_csv (to_csv w (pred_path save_loc k) c) (test_path save_loc k) t"
    from Cons.prems(1) Inr ct have "folds_loop ?w1 price_df save_loc (Suc k) preds = (w', r)"
      by simp
    from Cons.IH [OF this] Cons.prems(2)
    have "files w' (pred_path save_loc j) = files ?w1 (pred_path save_loc j)
       \<and> files w' (test_path save_loc j) = files ?w1 (test_path save_loc j)" by simp
    with Cons.prems(2) show ?thesis by (simp add: to_csv_def path_distinct)
  qed
qed

lemma folds_loop_aligned:
  assumes "folds_loop w price_df save_loc k preds = (w', Inr ())"
  shows "\<forall>i < length preds. \<exists>c t.
           convert_fold price_df (preds ! i) = Inr (c, t)
         \<and> files w' (pred_path save_loc (k + i)) = Some c
         \<and> files w' (test_path save_loc (k + i)) = Some t
         \<and> length (rows c) = length (rows t)
         \<and> map fst (rows c) = map fst (rows t)
         \<and> fst ` set (rows c) = fst ` set (rows t)"
  using assms
proof (induction preds arbitrary: w k)
  case Nil
  then show ?case by simp
next
  case (Cons p preds)
  from Cons.prems obtain c t where
    cf: "convert_fold price_df p = Inr (c, t)" and
    rest: "folds_loop (to_csv (to_csv w (pred_path save_loc k) c) (test_path save_loc k) t)
             price_df save_loc (Suc k) preds = (w', Inr ())"
    by (auto split: sum.splits)
  let ?w1 = "to_csv (to_csv w (pred_path save_loc k) c) (test_path save_loc k) t"
  from folds_loop_keeps [OF rest, of k]
  have here: "files w' (pred_path save_loc k) = Some c" "files w' (test_path save_loc k) = Some t"
    by (simp_all add: to_csv_def path_distinct)
  from convert_fold_rows [OF cf] have al: "map fst (rows c) = map fst (rows t)" by simp
  then have "length (rows c) = length (rows t)" "fst ` set (rows c) = fst ` set (rows t)"
    by (metis length_map, metis set_map)
  with cf here al have zero: "\<exists>c t.
           convert_fold price_df ((p # preds) ! 0) = Inr (c, t)
         \<and> files w' (pred_path save_loc (k + 0)) = Some c
         \<and> files w' (test_path save_loc (k + 0)) = Some t
         \<and> length (rows c) = length (rows t)
         \<and> map fst (rows c) = map fst (rows t)
         \<and> fst ` set (rows c) = fst ` set (rows t)"
    by simp
  show ?case
  proof (intro allI impI)
    fix i assume i: "i < length (p # preds)"
    show "\<exists>c t. convert_fold price_df ((p # preds) ! i) = Inr (c, t)
         \<and> files w' (pred_path save_loc (k + i)) = Some c
         \<and> files w' (test_path save_loc (k + i)) = Some t
         \<and> length (rows c) = length (rows t)
         \<and> map fst (rows c) = map fst (rows t)
         \<and> fst ` set (rows c) = fst ` set (rows t)"
    proof (cases i)
      case 0
      with zero show ?thesis by simp
    next
      case (Suc i')
      with i have "i' < length preds" by simp
      with Cons.IH [OF rest] Suc show ?thesis by simp
    qed
  qed
qed


text \<open>
  C8.  Let the conversion of the per-fold forecasts \<open>preds\<close> of a supported family, with
  target family \<open>tm\<close>, run to its end.  Then for every fold \<open>i\<close> the store holds, under
  the target family, the reconstructed predictions and the ground truth that the loop body
  made of fold \<open>i\<close>, and the two have the same length and the same timestamps, row by row
  and as sets.
\<close>

theorem convert_loaded_aligned:
  assumes "transformed_model cfg model = Some tm"
    and "convert_loaded ext cfg w (Some (Many preds)) model forecasting_model coin time_frame
           = (w', Inr ())"
  shows "\<exists>price_df. read_csv ext coin time_frame [''close''] = Inr price_df
    \<and> (\<forall>i < length preds. \<exists>c t.
           convert_fold price_df (preds ! i) = Inr (c, t)
         \<and> files w' (pred_path (file_loc cfg tm forecasting_model coin time_frame) i) = Some c
         \<and> files w' (test_path (file_loc cfg tm forecasting_model coin time_frame) i) = Some t
         \<and> length (rows c) = length (rows t)
         \<and> map fst (rows c) = map fst (rows t)
         \<and> fst ` set (rows c) = fst ` set (rows t))"
proof -
  from assms obtain price_df where
    rd: "read_csv ext coin time_frame [''close''] = Inr price_df" and
    fl: "folds_loop w price_df (file_loc cfg tm forecasting_model coin time_frame) 0 preds
           = (w', Inr ())"
    by (auto simp: convert_loaded_def iter_preds_def Let_def split: sum.splits)
  from folds_loop_aligned [OF fl] rd show ?thesis by simp
qed

lemma demo_target: "transformed_model demo_cfg ''log_returns'' = Some ''log_to_raw''"
  by (simp add: transformed_model_def demo_cfg_def)

lemma demo_convert_loaded:
  "convert_loaded demo_ext demo_cfg empty_store (Some (Many [demo_forecast]))
     ''log_returns'' ''ARIMA'' ''BTC'' ''1d''
   = (\<lparr>files = [''out/log_to_raw/ARIMA/BTC/1d/pred_0.csv''
                   \<mapsto> \<lparr>time_col = ''time'', value_col = ''close'',
                        rows = [(1, 102), (2, 101)]\<rparr>,
                 ''out/log_to_raw/ARIMA/BTC/1d/test_0.csv''
                   \<mapsto> \<lparr>time_col = ''date'', value_col = ''close'',
                        rows = [(1, 102), (2, 101)]\<rparr>],
        stdout = []\<rparr>, Inr ())"
proof -
  have rd: "read_csv demo_ext ''BTC'' ''1d'' [''close''] = Inr demo_prices"
    by (simp add: demo_ext_def)
  have loc: "file_loc demo_cfg ''log_to_raw'' ''ARIMA'' ''BTC'' ''1d''
      = ''out/log_to_raw/ARIMA/BTC/1d''"
    by (simp add: file_loc_def demo_cfg_def)
  show ?thesis
    unfolding convert_loaded_def demo_target rd
    by (simp add: Let_def loc iter_preds_def demo_convert_fold to_csv_def empty_store_def
        pred_path_def test_path_def str_nat.simps digit_char_def)
qed

theorem convert_loaded_aligned_witness:
  "convert_loaded demo_ext demo_cfg empty_store (Some (Many [demo_forecast]))
     ''log_returns'' ''ARIMA'' ''BTC'' ''1d''
   = (\<lparr>files = [''out/log_to_raw/ARIMA/BTC/1d/pred_0.csv''
                   \<mapsto> \<lparr>time_col = ''time'', value_col = ''close'',
                        rows = [(1, 102), (2, 101)]\<rparr>,
                 ''out/log_to_raw/ARIMA/BTC/1d/test_0.csv''
                   \<mapsto> \<lparr>time_col = ''date'', value_col = ''close'',
                        rows = [(1, 102), (2, 101)]\<rparr>],
        stdout = []\<rparr>, Inr ())
   \<and> (\<exists>c t. convert_fold demo_prices demo_forecast = Inr (c, t)
        \<and> length (rows c) = length (rows t) \<and> map fst (rows c) = map fst (rows t))"
proof -
  from convert_loaded_aligned [OF demo_target demo_convert_loaded]
  have "\<exists>c t. convert_fold demo_prices ([demo_forecast] ! 0) = Inr (c, t)
        \<and> length (rows c) = length (rows t) \<and> map fst (rows c) = map fst (rows t)"
    by (simp add: demo_ext_def) blast
  with demo_convert_loaded show ?thesis by simp
qed


end
